theory Spec2Isabelle
  imports Complex_Main "HOL-Library.Char_ord" "HOL-Library.List_Lexorder" "HOL-Library.Sublist"
    "HOL-Library.AList"
begin

section \<open>cc-session-stats: a shallow embedding of \<^verbatim>\<open>src/cli.mjs\<close>\<close>

text \<open>
  Conventions of the embedding.
  \<^item> Text is a \<open>string\<close> of bytes: the content of a file is its bytes, and a string that
    the source decodes from them (\<^verbatim>\<open>buf.toString('utf8')\<close>) is represented by the bytes
    it was decoded from, so that the byte counts of the source (8192, 65536) are
    lengths. The line feed is one byte that occurs in no other encoding, so splitting
    at line feeds is the same before and after decoding; what depends on code points
    (\<^verbatim>\<open>trim\<close>) is written over their UTF-8 encodings.
  \<^item> A JavaScript number is an IEEE 754 double. A finite double is the \<open>rat\<close> that it
    denotes, and every arithmetic operation of the source is the exact operation
    followed by the rounding \<open>double\<close> to the nearest double (ties to even). A number
    that can be \<open>NaN\<close> is a \<open>rat option\<close> or \<open>int option\<close> with \<open>None\<close> for \<open>NaN\<close>.
    Time values and counters are integers below \<open>2 ^ 53\<close> in magnitude, which doubles
    hold exactly: they are \<open>int\<close> and \<open>nat\<close>.
  \<^item> A \<open>Date\<close> is its time value: milliseconds since the epoch, or \<open>NaN\<close> (an invalid
    date).
  \<^item> What the host provides (\<open>JSON.parse\<close>, \<open>Date.parse\<close>, the local time zone, the
    clock) is a parameter of type \<open>platform\<close>; the theorems hold for every platform.
    A concrete platform (UTC, ISO dates, an ASCII JSON reader) evaluates the examples.
\<close>

subsection \<open>String primitives of the host language\<close>

text \<open>\<^verbatim>\<open>s.startsWith(p)\<close>\<close>

definition startsWith :: "string \<Rightarrow> string \<Rightarrow> bool" where
  "startsWith s p = (take (length p) s = p)"

text \<open>\<^verbatim>\<open>s.endsWith(p)\<close>\<close>

definition endsWith :: "string \<Rightarrow> string \<Rightarrow> bool" where
  "endsWith s p = (length p \<le> length s \<and> drop (length s - length p) s = p)"

text \<open>\<^verbatim>\<open>s.split(c)\<close> for a one-character separator: never the empty array.\<close>

fun split_on :: "char \<Rightarrow> string \<Rightarrow> string list" where
  "split_on c [] = [[]]"
| "split_on c (x # xs) =
     (if x = c then [] # split_on c xs
      else (case split_on c xs of
              [] \<Rightarrow> [[x]]
            | l # ls \<Rightarrow> (x # l) # ls))"

text \<open>\<^verbatim>\<open>parts.join(sep)\<close>\<close>

fun join_with :: "string \<Rightarrow> string list \<Rightarrow> string" where
  "join_with sep [] = []"
| "join_with sep [p] = p"
| "join_with sep (p # q # ps) = p @ sep @ join_with sep (q # ps)"

subsection \<open>Numbers of the host language\<close>

text \<open>
  A number of the program is an IEEE 754 double. The model writes a finite double as the
  rational number it is, and \<open>double\<close> rounds a rational to the nearest double, a tie to
  the one with the even significand: 53 bits from the leading one, above the least
  exponent \<open>-1074\<close>. Every arithmetic operation reads its operands through
  \<open>double\<close> and rounds its exact result, so a rational that is no double stands for the
  double that a literal of this value denotes. (Magnitudes from \<open>2^1024\<close> on, where the
  language has \<open>Infinity\<close>, are outside the model.)
\<close>

text \<open>For an integer \<open>n \<ge> 1\<close>, the exponent of the greatest power of two that is at most \<open>n\<close>.\<close>

function log2i :: "int \<Rightarrow> int" where
  "log2i n = (if n < 2 then 0 else 1 + log2i (n div 2))"
  by pat_completeness auto
termination
  by (relation "measure nat") auto

declare log2i.simps [simp del]

text \<open>The same for a positive rational.\<close>

definition ilog2 :: "rat \<Rightarrow> int" where
  "ilog2 a = (if 1 \<le> a then log2i \<lfloor>a\<rfloor> else - (log2i (\<lceil>1 / a\<rceil> - 1) + 1))"

definition roundTiesToEven :: "rat \<Rightarrow> int" where
  "roundTiesToEven x =
     (let f = \<lfloor>x\<rfloor>; d = x - of_int f in
      if d < 1 / 2 then f
      else if 1 / 2 < d then f + 1
      else if even f then f else f + 1)"

definition double :: "rat \<Rightarrow> rat" where
  "double x =
     (if x = 0 then 0
      else
        let e = max (ilog2 \<bar>x\<bar> - 52) (- 1074) in
        sgn x * of_int (roundTiesToEven (\<bar>x\<bar> / 2 powi e)) * 2 powi e)"

text \<open>The operators \<open>+\<close>, \<open>-\<close>, \<open>*\<close> and \<open>/\<close> on numbers.\<close>

definition fadd :: "rat \<Rightarrow> rat \<Rightarrow> rat" where
  "fadd a b = double (double a + double b)"

definition fsub :: "rat \<Rightarrow> rat \<Rightarrow> rat" where
  "fsub a b = double (double a - double b)"

definition fmul :: "rat \<Rightarrow> rat \<Rightarrow> rat" where
  "fmul a b = double (double a * double b)"

definition fdiv :: "rat \<Rightarrow> rat \<Rightarrow> rat" where
  "fdiv a b = double (double a / double b)"

subsection \<open>ProjectPathNormalizer: \<^verbatim>\<open>cleanProjectName\<close>\<close>

text \<open>
  \<^verbatim>\<open>
  function cleanProjectName(dirName) {
    if (dirName.startsWith('-tmp')) { return '/tmp'; }
    const parts = dirName.split('-').filter(Boolean);
    if (parts[0] === 'home' && parts.length >= 2) {
      const rest = parts.slice(2);
      if (rest.length === 0) return '~';
      if (rest[0] === 'projects') rest.shift();
      return rest.join('-') || '~';
    }
    return dirName;
  }
  \<close>
  \<open>parts[0]\<close> and \<open>rest[0]\<close> are \<open>undefined\<close> on an empty array, which equals no string.
\<close>

definition first_is :: "string list \<Rightarrow> string \<Rightarrow> bool" where
  "first_is xs s = (case xs of [] \<Rightarrow> False | x # _ \<Rightarrow> x = s)"

definition cleanProjectName :: "string \<Rightarrow> string" where
  "cleanProjectName dirName =
     (if startsWith dirName ''-tmp'' then ''/tmp''
      else
        let parts = filter (\<lambda>p. p \<noteq> []) (split_on CHR ''-'' dirName) in
        if first_is parts ''home'' \<and> 2 \<le> length parts then
          (let rest = drop 2 parts in
           if length rest = 0 then ''~''
           else
             let rest' = (if first_is rest ''projects'' then tl rest else rest);
                 label = join_with ''-'' rest'
             in if label = [] then ''~'' else label)
        else dirName)"

text \<open>
  The directory-name encoding of an absolute path: every separator becomes \<open>-\<close>.
  A segment is well formed when it is not empty and holds no \<open>-\<close> itself.
\<close>

definition encode_path :: "string list \<Rightarrow> string" where
  "encode_path segs = concat (map (\<lambda>s. CHR ''-'' # s) segs)"

definition segment :: "string \<Rightarrow> bool" where
  "segment s = (s \<noteq> [] \<and> CHR ''-'' \<notin> set s)"

text \<open>The segments that \<open>cleanProjectName\<close> sees in a name.\<close>

definition name_parts :: "string \<Rightarrow> string list" where
  "name_parts dirName = filter (\<lambda>p. p \<noteq> []) (split_on CHR ''-'' dirName)"

subsection \<open>EdgeLineReader: \<^verbatim>\<open>readFirstLastLine\<close>\<close>

definition newline :: char where
  "newline = CHR 0x0A"

text \<open>
  The code points that \<^verbatim>\<open>String.prototype.trim\<close> removes are the \<open>WhiteSpace\<close> and the
  \<open>LineTerminator\<close> of ECMAScript, here by their UTF-8 encodings: TAB, LF, VT, FF, CR,
  SPACE; U+00A0; U+1680; U+2000 to U+200A; U+2028, U+2029, U+202F; U+205F; U+3000;
  U+FEFF (which \<^verbatim>\<open>buf.toString\<close> keeps).
\<close>

definition isWhiteSpace :: "string \<Rightarrow> bool" where
  "isWhiteSpace w =
     (case w of
        [a] \<Rightarrow> a \<in> {CHR 0x09, CHR 0x0A, CHR 0x0B, CHR 0x0C, CHR 0x0D, CHR 0x20}
      | [a, b] \<Rightarrow> a = CHR 0xC2 \<and> b = CHR 0xA0
      | [a, b, c] \<Rightarrow>
          a = CHR 0xE1 \<and> b = CHR 0x9A \<and> c = CHR 0x80 \<or>
          a = CHR 0xE2 \<and> b = CHR 0x80 \<and>
            (c \<in> {CHR 0x80, CHR 0x81, CHR 0x82, CHR 0x83, CHR 0x84, CHR 0x85, CHR 0x86,
                  CHR 0x87, CHR 0x88, CHR 0x89, CHR 0x8A, CHR 0xA8, CHR 0xA9, CHR 0xAF}) \<or>
          a = CHR 0xE2 \<and> b = CHR 0x81 \<and> c = CHR 0x9F \<or>
          a = CHR 0xE3 \<and> b = CHR 0x80 \<and> c = CHR 0x80 \<or>
          a = CHR 0xEF \<and> b = CHR 0xBB \<and> c = CHR 0xBF
      | _ \<Rightarrow> False)"

text \<open>
  \<^verbatim>\<open>s.trimStart()\<close>: the encodings of white space are removed from the front, one code
  point at a time. No encoding is the beginning of another, and bytes that are not
  valid UTF-8 decode to U+FFFD, which is not white space.
\<close>

fun trimStart :: "string \<Rightarrow> string" where
  "trimStart (a # b # c # s) =
     (if isWhiteSpace [a] then trimStart (b # c # s)
      else if isWhiteSpace [a, b] then trimStart (c # s)
      else if isWhiteSpace [a, b, c] then trimStart s
      else a # b # c # s)"
| "trimStart [a, b] =
     (if isWhiteSpace [a] then trimStart [b]
      else if isWhiteSpace [a, b] then []
      else [a, b])"
| "trimStart [a] = (if isWhiteSpace [a] then [] else [a])"
| "trimStart [] = []"

text \<open>
  \<^verbatim>\<open>s.trimEnd()\<close>, on the reversed string: an encoding at the end begins with an ASCII
  or a lead byte, so that it is decoded as one code point whatever precedes it.
\<close>

fun trimEndRev :: "string \<Rightarrow> string" where
  "trimEndRev (c # b # a # s) =
     (if isWhiteSpace [c] then trimEndRev (b # a # s)
      else if isWhiteSpace [b, c] then trimEndRev (a # s)
      else if isWhiteSpace [a, b, c] then trimEndRev s
      else c # b # a # s)"
| "trimEndRev [c, b] =
     (if isWhiteSpace [c] then trimEndRev [b]
      else if isWhiteSpace [b, c] then []
      else [c, b])"
| "trimEndRev [c] = (if isWhiteSpace [c] then [] else [c])"
| "trimEndRev [] = []"

definition trimEnd :: "string \<Rightarrow> string" where
  "trimEnd s = rev (trimEndRev (rev s))"

definition trim :: "string \<Rightarrow> string" where
  "trim s = trimEnd (trimStart s)"

text \<open>
  \<^verbatim>\<open>
  const { bytesRead: firstBytes } = await fh.read(buf, 0, 8192, 0);
  if (firstBytes === 0) return null;
  const firstChunk = buf.toString('utf8', 0, firstBytes);
  const firstNewline = firstChunk.indexOf('\n');
  const firstLine = firstNewline >= 0 ? firstChunk.substring(0, firstNewline) : firstChunk;
  const fileSize = fileStat.size;
  if (fileSize < 2) return { firstLine, lastLine: firstLine };
  const readSize = Math.min(65536, fileSize);
  ... fh.read(tailBuf, 0, readSize, fileSize - readSize);
  const lines = tailChunk.split('\n').filter(l => l.trim());
  const lastLine = lines[lines.length - 1] || firstLine;
  return { firstLine, lastLine };
  \<close>
  The argument is the content of the opened file; \<open>None\<close> is the \<open>null\<close> of the source.
  \<open>lines[lines.length - 1]\<close> is \<open>undefined\<close> on an empty array, and \<open>||\<close> replaces
  \<open>undefined\<close> and the empty string by \<open>firstLine\<close>.
\<close>

definition readFirstLastLine :: "string \<Rightarrow> (string \<times> string) option" where
  "readFirstLastLine content =
     (let firstChunk = take 8192 content in
      if length firstChunk = 0 then None
      else
        let firstLine = takeWhile (\<lambda>c. c \<noteq> newline) firstChunk;
            fileSize = length content
        in
        if fileSize < 2 then Some (firstLine, firstLine)
        else
          let readSize = min 65536 fileSize;
              tailChunk = drop (fileSize - readSize) content;
              lines = filter (\<lambda>l. trim l \<noteq> []) (split_on newline tailChunk);
              lastLine = (case lines of
                            [] \<Rightarrow> firstLine
                          | _ # _ \<Rightarrow> if last lines = [] then firstLine else last lines)
          in Some (firstLine, lastLine))"

text \<open>
  The result of \<open>readFirstLastLine\<close> from the two chunks it reads and the size of the
  file. A file of at most 8192 bytes is both of its chunks.
\<close>

definition edge_lines :: "string \<Rightarrow> string \<Rightarrow> nat \<Rightarrow> (string \<times> string) option" where
  "edge_lines firstChunk tailChunk fileSize =
     (if length firstChunk = 0 then None
      else
        let firstLine = takeWhile (\<lambda>c. c \<noteq> newline) firstChunk in
        if fileSize < 2 then Some (firstLine, firstLine)
        else
          let lines = filter (\<lambda>l. trim l \<noteq> []) (split_on newline tailChunk);
              lastLine = (case lines of
                            [] \<Rightarrow> firstLine
                          | _ # _ \<Rightarrow> if last lines = [] then firstLine else last lines)
          in Some (firstLine, lastLine))"

subsection \<open>The host platform\<close>

text \<open>A value that \<^verbatim>\<open>JSON.parse\<close> returns. An object lists its keys once each.\<close>

datatype json =
    JNull
  | JBool bool
  | JNum rat
  | JStr string
  | JArr "json list"
  | JObj "(string \<times> json) list"

text \<open>The exceptions that the code of this program can meet.\<close>

datatype error = SyntaxError | TypeError

text \<open>A \<open>Date\<close> object: its time value in milliseconds, \<open>None\<close> for \<open>NaN\<close> (Invalid Date).\<close>

datatype jsdate = Date (timeValue: "int option")

text \<open>
  What the host provides and the repository does not define:
  \<^item> \<open>JSON_parse\<close>: \<^verbatim>\<open>JSON.parse\<close>, \<open>None\<close> when it throws a SyntaxError;
  \<^item> \<open>Date_parse\<close>: \<^verbatim>\<open>Date.parse\<close> on a string, \<open>None\<close> for \<open>NaN\<close> (the formats beyond
    ISO 8601 are left to the implementation by the language);
  \<^item> \<open>ToPrimitive\<close>: the string an array or an object converts to, \<open>None\<close> when the
    conversion throws a TypeError;
  \<^item> \<open>localOffset\<close>: local time minus UTC at an instant, in milliseconds;
  \<^item> \<open>Date_now\<close>: the clock, \<^verbatim>\<open>Date.now()\<close>;
  \<^item> \<open>sort_inconsistent\<close>: the order in which \<^verbatim>\<open>Array.prototype.sort\<close> leaves the
    entries of the project table when its comparator is not consistent (it returns
    \<open>NaN\<close> for some pairs and orders others): the language leaves this order to the
    implementation.
\<close>

record platform =
  JSON_parse :: "string \<Rightarrow> json option"
  Date_parse :: "string \<Rightarrow> int option"
  ToPrimitive :: "json \<Rightarrow> string option"
  localOffset :: "int \<Rightarrow> int"
  Date_now :: int
  sort_inconsistent :: "(string \<times> rat option) list \<Rightarrow> (string \<times> rat option) list"

text \<open>
  \<^verbatim>\<open>data.key\<close>: a TypeError on \<open>null\<close>, the own property of an object, and \<open>undefined\<close>
  (\<open>None\<close>) otherwise: no primitive, array or \<open>Object.prototype\<close> has a property
  \<open>timestamp\<close> or \<open>ts\<close>.
\<close>

fun get_prop :: "json \<Rightarrow> string \<Rightarrow> error + json option" where
  "get_prop JNull k = Inl TypeError"
| "get_prop (JObj kvs) k = Inr (map_of kvs k)"
| "get_prop _ k = Inr None"

text \<open>
  Truthiness of a value; \<open>None\<close> is \<open>undefined\<close>. The number of a \<open>JNum\<close> is read
  through \<open>double\<close>.
\<close>

fun truthy :: "json option \<Rightarrow> bool" where
  "truthy None = False"
| "truthy (Some JNull) = False"
| "truthy (Some (JBool b)) = b"
| "truthy (Some (JNum x)) = (double x \<noteq> 0)"
| "truthy (Some (JStr s)) = (s \<noteq> [])"
| "truthy (Some (JArr _)) = True"
| "truthy (Some (JObj _)) = True"

text \<open>\<open>TimeClip\<close> of the language: beyond 8.64e15 ms there is no date; fractions are cut.\<close>

definition TimeClip :: "rat \<Rightarrow> int option" where
  "TimeClip x =
     (if \<bar>x\<bar> > 8640000000000000 then None
      else Some (if 0 \<le> x then \<lfloor>x\<rfloor> else \<lceil>x\<rceil>))"

text \<open>
  \<^verbatim>\<open>new Date(v)\<close>: a string is parsed, a number is clipped, \<open>true\<close>, \<open>false\<close> and \<open>null\<close>
  convert to the numbers 1, 0 and 0, an array or object is first converted to a string.
\<close>

fun new_Date :: "platform \<Rightarrow> json \<Rightarrow> error + jsdate" where
  "new_Date P (JStr s) = Inr (Date (Date_parse P s))"
| "new_Date P (JNum x) = Inr (Date (TimeClip (double x)))"
| "new_Date P (JBool b) = Inr (Date (Some (if b then 1 else 0)))"
| "new_Date P JNull = Inr (Date (Some 0))"
| "new_Date P v =
     (case ToPrimitive P v of
        None \<Rightarrow> Inl TypeError
      | Some s \<Rightarrow> Inr (Date (Date_parse P s)))"

subsection \<open>TimestampExtractor: \<^verbatim>\<open>parseTimestamp\<close>\<close>

text \<open>
  \<^verbatim>\<open>
  function parseTimestamp(jsonLine) {
    try {
      const data = JSON.parse(jsonLine);
      const ts = data.timestamp || data.ts;
      if (ts) return new Date(ts);
    } catch {}
    return null;
  }
  \<close>
  \<open>parseTimestamp_try\<close> is the \<open>try\<close> block: \<open>Inl\<close> an exception, \<open>Inr (Some d)\<close> the
  \<open>return\<close> inside it, \<open>Inr None\<close> falling through. \<open>parseTimestamp\<close> adds the empty
  \<open>catch\<close> and the final \<open>return null\<close>.
\<close>

definition parseTimestamp_try :: "platform \<Rightarrow> string \<Rightarrow> error + jsdate option" where
  "parseTimestamp_try P jsonLine =
     (case JSON_parse P jsonLine of
        None \<Rightarrow> Inl SyntaxError
      | Some data \<Rightarrow>
          (case get_prop data ''timestamp'' of
             Inl e \<Rightarrow> Inl e
           | Inr v1 \<Rightarrow>
               (case (if truthy v1 then Inr v1 else get_prop data ''ts'') of
                  Inl e \<Rightarrow> Inl e
                | Inr ts \<Rightarrow>
                    (case ts of
                       None \<Rightarrow> Inr None
                     | Some v \<Rightarrow>
                         if truthy ts then
                           (case new_Date P v of
                              Inl e \<Rightarrow> Inl e
                            | Inr d \<Rightarrow> Inr (Some d))
                         else Inr None))))"

definition parseTimestamp :: "platform \<Rightarrow> string \<Rightarrow> jsdate option" where
  "parseTimestamp P jsonLine =
     (case parseTimestamp_try P jsonLine of
        Inl e \<Rightarrow> None
      | Inr r \<Rightarrow> r)"

text \<open>The value of \<^verbatim>\<open>data.timestamp || data.ts\<close> for an object with the entries \<open>kvs\<close>.\<close>

definition selected :: "(string \<times> json) list \<Rightarrow> json option" where
  "selected kvs =
     (if truthy (map_of kvs ''timestamp'') then map_of kvs ''timestamp'' else map_of kvs ''ts'')"

subsection \<open>The file system\<close>

text \<open>
  A file with its content, or a directory with its entries in the order \<^verbatim>\<open>readdir\<close> lists
  them. The flag says whether the process may read the file (\<^verbatim>\<open>open\<close>) or list the
  directory (\<^verbatim>\<open>readdir\<close>); both raise otherwise. A path that does not exist is \<open>None\<close>.
\<close>

datatype node =
    File bool string
  | Dir bool "(string \<times> node) list"

text \<open>\<^verbatim>\<open>join(dir, name)\<close>, resolved.\<close>

fun child :: "node option \<Rightarrow> string \<Rightarrow> node option" where
  "child (Some (Dir _ entries)) name = map_of entries name"
| "child _ name = None"

text \<open>\<^verbatim>\<open>readdir(path)\<close>; \<open>None\<close> when it raises.\<close>

fun readdir :: "node option \<Rightarrow> string list option" where
  "readdir (Some (Dir True entries)) = Some (map fst entries)"
| "readdir _ = None"

text \<open>\<^verbatim>\<open>(await stat(path).catch(() => null))?.isDirectory()\<close>\<close>

fun isDirectory :: "node option \<Rightarrow> bool" where
  "isDirectory (Some (Dir _ _)) = True"
| "isDirectory _ = False"

subsection \<open>SessionScanner: \<^verbatim>\<open>addSession\<close> and \<^verbatim>\<open>scanSessions\<close>\<close>

text \<open>
  A Session. \<open>start\<close> and \<open>endTime\<close> (the field \<open>end\<close> of the source) are the time values
  of the two dates: \<open>addSession\<close> stores a session only when both are valid.
\<close>

record session =
  project :: string
  start :: int
  endTime :: int
  durationHours :: rat
  sizeBytes :: nat

text \<open>
  \<^verbatim>\<open>
  async function addSession(filePath, project, sessions) {
    const fileStat = await stat(filePath).catch(() => null);
    if (!fileStat || fileStat.size < 50) return;
    try {
      const result = await readFirstLastLine(filePath);
      if (!result) return;
      const startTs = parseTimestamp(result.firstLine);
      const endTs = parseTimestamp(result.lastLine);
      if (startTs && endTs) {
        const durationMs = endTs - startTs;
        if (durationMs >= 0 && durationMs < 7 * 24 * 60 * 60 * 1000) {
          sessions.push({ project, start: startTs, end: endTs,
            durationHours: durationMs / (1000 * 60 * 60), sizeBytes: fileStat.size });
        }
      }
    } catch {}
  }
  \<close>
  The function returns the list \<open>sessions\<close> as the call leaves it. A path that is a
  directory adds nothing: whatever size \<open>stat\<close> reports for it, reading it raises, and
  the \<open>catch\<close> absorbs that, as it does for a file that cannot be opened. The
  difference of two dates is \<open>NaN\<close> when one is invalid, and no comparison with \<open>NaN\<close>
  holds. The difference of two time values is an integer; where it passes the two
  comparisons it is far below \<open>2 ^ 53\<close> and exact.
\<close>

definition addSession :: "platform \<Rightarrow> node option \<Rightarrow> string \<Rightarrow> session list \<Rightarrow> session list" where
  "addSession P filePath proj sessions =
     (case filePath of
        None \<Rightarrow> sessions
      | Some (Dir _ _) \<Rightarrow> sessions
      | Some (File readable content) \<Rightarrow>
          if length content < 50 then sessions
          else if \<not> readable then sessions
          else
            (case readFirstLastLine content of
               None \<Rightarrow> sessions
             | Some (firstLine, lastLine) \<Rightarrow>
                 (case (parseTimestamp P firstLine, parseTimestamp P lastLine) of
                    (Some startTs, Some endTs) \<Rightarrow>
                      (case (timeValue endTs, timeValue startTs) of
                         (Some e, Some b) \<Rightarrow>
                           (let durationMs = e - b in
                            if 0 \<le> durationMs \<and> durationMs < 7 * 24 * 60 * 60 * 1000 then
                              sessions @
                                [\<lparr>project = proj, start = b, endTime = e,
                                  durationHours = fdiv (of_int durationMs) (1000 * 60 * 60),
                                  sizeBytes = length content\<rparr>]
                            else sessions)
                       | _ \<Rightarrow> sessions)
                  | _ \<Rightarrow> sessions)))"

text \<open>
  \<^verbatim>\<open>Array.prototype.sort(cmp)\<close> is a stable sort. \<open>lt a b\<close> reads \<open>cmp(a, b) < 0\<close>. Each
  element is inserted behind the elements it does not precede, which is the one stable
  arrangement when \<open>cmp\<close> is a consistent ordering.
\<close>

fun insert_by :: "('a \<Rightarrow> 'a \<Rightarrow> bool) \<Rightarrow> 'a \<Rightarrow> 'a list \<Rightarrow> 'a list" where
  "insert_by lt x [] = [x]"
| "insert_by lt x (y # ys) = (if lt x y then x # y # ys else y # insert_by lt x ys)"

definition sort_by :: "('a \<Rightarrow> 'a \<Rightarrow> bool) \<Rightarrow> 'a list \<Rightarrow> 'a list" where
  "sort_by lt xs = foldl (\<lambda>acc x. insert_by lt x acc) [] xs"

text \<open>
  The two loops over the entries of a project directory. \<open>scanFile\<close> and \<open>scanSubagent\<close>
  are their bodies, \<open>scanFiles\<close> is the first loop and the inner loop of the second:
  \<^verbatim>\<open>
  for (const file of files) {
    if (!file.endsWith('.jsonl')) continue;
    await addSession(join(projPath, file), cleanProjectName(projDir), sessions);
  }
  for (const file of files) {
    const subPath = join(projPath, file, 'subagents');
    const subStat = await stat(subPath).catch(() => null);
    if (!subStat?.isDirectory()) continue;
    try {
      const subFiles = await readdir(subPath);
      for (const sf of subFiles) {
        if (!sf.endsWith('.jsonl')) continue;
        await addSession(join(subPath, sf), cleanProjectName(projDir), sessions);
      }
    } catch {}
  }
  \<close>
\<close>

definition scanFile :: "platform \<Rightarrow> node option \<Rightarrow> string \<Rightarrow> session list \<Rightarrow> string \<Rightarrow> session list" where
  "scanFile P dir projDir sessions file =
     (if \<not> endsWith file ''.jsonl'' then sessions
      else addSession P (child dir file) (cleanProjectName projDir) sessions)"

definition scanFiles :: "platform \<Rightarrow> node option \<Rightarrow> string \<Rightarrow> string list \<Rightarrow> session list \<Rightarrow> session list" where
  "scanFiles P dir projDir files sessions = foldl (scanFile P dir projDir) sessions files"

definition scanSubagent :: "platform \<Rightarrow> node option \<Rightarrow> string \<Rightarrow> session list \<Rightarrow> string \<Rightarrow> session list" where
  "scanSubagent P projPath projDir sessions file =
     (let subPath = child (child projPath file) ''subagents'' in
      if \<not> isDirectory subPath then sessions
      else
        (case readdir subPath of
           None \<Rightarrow> sessions
         | Some subFiles \<Rightarrow> scanFiles P subPath projDir subFiles sessions))"

definition scanSubagents :: "platform \<Rightarrow> node option \<Rightarrow> string \<Rightarrow> string list \<Rightarrow> session list \<Rightarrow> session list" where
  "scanSubagents P projPath projDir files sessions =
     foldl (scanSubagent P projPath projDir) sessions files"

text \<open>
  \<^verbatim>\<open>
  for (const projDir of projectDirs) {
    const projPath = join(projectsDir, projDir);
    const projStat = await stat(projPath).catch(() => null);
    if (!projStat?.isDirectory()) continue;
    let files;
    try { files = await readdir(projPath); } catch { continue; }
    ... the two loops above ...
  }
  \<close>
\<close>

definition scanProject :: "platform \<Rightarrow> node option \<Rightarrow> session list \<Rightarrow> string \<Rightarrow> session list" where
  "scanProject P projectsDir sessions projDir =
     (let projPath = child projectsDir projDir in
      if \<not> isDirectory projPath then sessions
      else
        (case readdir projPath of
           None \<Rightarrow> sessions
         | Some files \<Rightarrow>
             scanSubagents P projPath projDir files
               (scanFiles P projPath projDir files sessions)))"

text \<open>
  \<^verbatim>\<open>
  async function scanSessions(claudeDir) {
    const projectsDir = join(claudeDir, 'projects');
    const sessions = [];
    let projectDirs;
    try { projectDirs = await readdir(projectsDir); } catch { return sessions; }
    for (const projDir of projectDirs) { ... }
    return sessions.sort((a, b) => a.start - b.start);
  }
  \<close>
\<close>

definition scanSessions :: "platform \<Rightarrow> node option \<Rightarrow> session list" where
  "scanSessions P claudeDir =
     (let projectsDir = child claudeDir ''projects'' in
      case readdir projectsDir of
        None \<Rightarrow> []
      | Some projectDirs \<Rightarrow>
          sort_by (\<lambda>a b. start a - start b < 0)
            (foldl (scanProject P projectsDir) [] projectDirs))"

text \<open>The invariant of a Session in the specification's data model.\<close>

definition valid_session :: "session \<Rightarrow> bool" where
  "valid_session s = (0 \<le> durationHours s \<and> durationHours s < 168 \<and> 50 \<le> sizeBytes s)"

subsection \<open>Dates in local time and numbers as text\<close>

text \<open>\<^verbatim>\<open>String(n)\<close> for an integer: the decimal digits, behind a minus sign below zero.\<close>

function decimal :: "int \<Rightarrow> string" where
  "decimal n =
     (if n < 10 then [char_of (48 + n)]
      else decimal (n div 10) @ [char_of (48 + n mod 10)])"
  by pat_completeness auto
termination
  by (relation "measure nat") auto

definition show_int :: "int \<Rightarrow> string" where
  "show_int n = (if n < 0 then CHR ''-'' # decimal (- n) else decimal n)"

text \<open>\<^verbatim>\<open>s.padStart(n, '0')\<close>\<close>

definition pad0 :: "nat \<Rightarrow> string \<Rightarrow> string" where
  "pad0 n s = replicate (n - length s) CHR ''0'' @ s"

text \<open>
  \<^verbatim>\<open>x.toFixed(1)\<close>: the sign, then the integer \<open>n\<close> with \<open>n / 10\<close> nearest to the exact
  value of the double \<open>\<bar>x\<bar>\<close>, the larger one on a tie, written with one digit behind the
  point. (The exponent form of numbers from 1e21 on is not modelled.)
\<close>

definition toFixed1 :: "rat \<Rightarrow> string" where
  "toFixed1 x =
     (let n = \<lfloor>\<bar>double x\<bar> * 10 + 1 / 2\<rfloor> in
      (if double x < 0 then ''-'' else []) @ show_int (n div 10) @ ''.'' @ show_int (n mod 10))"

text \<open>
  The civil date (year, month, day) of a day number counted from 1970-01-01, in the
  proleptic Gregorian calendar.
\<close>

definition civil_from_days :: "int \<Rightarrow> int \<times> int \<times> int" where
  "civil_from_days days =
     (let z = days + 719468;
          era = z div 146097;
          doe = z mod 146097;
          yoe = (doe - doe div 1460 + doe div 36524 - doe div 146096) div 365;
          doy = doe - (365 * yoe + yoe div 4 - yoe div 100);
          mp = (5 * doy + 2) div 153;
          d = doy - (153 * mp + 2) div 5 + 1;
          m = (if mp < 10 then mp + 3 else mp - 9);
          y = yoe + era * 400 + (if m \<le> 2 then 1 else 0)
      in (y, m, d))"

text \<open>
  The local time of an instant, and what the source reads from it:
  \<^verbatim>\<open>getDay()\<close> (0 is Sunday; 1970-01-01 was a Thursday), \<^verbatim>\<open>getHours()\<close> and
  \<^verbatim>\<open>toLocaleDateString('en-CA')\<close>, whose pattern is \<open>y-MM-dd\<close>. (Years before 1 print as
  the year of their era.)
\<close>

definition localTime :: "platform \<Rightarrow> int \<Rightarrow> int" where
  "localTime P t = t + localOffset P t"

definition getDay :: "platform \<Rightarrow> int \<Rightarrow> nat" where
  "getDay P t = nat ((localTime P t div 86400000 + 4) mod 7)"

definition getHours :: "platform \<Rightarrow> int \<Rightarrow> nat" where
  "getHours P t = nat ((localTime P t mod 86400000) div 3600000)"

definition toLocaleDateString :: "platform \<Rightarrow> int \<Rightarrow> string" where
  "toLocaleDateString P t =
     (case civil_from_days (localTime P t div 86400000) of
        (y, m, d) \<Rightarrow>
          show_int (if y \<le> 0 then 1 - y else y) @ ''-'' @
          pad0 2 (show_int m) @ ''-'' @ pad0 2 (show_int d))"

subsection \<open>StatsAnalyzer: \<^verbatim>\<open>analyze\<close>\<close>

text \<open>The thresholds of the configuration block.\<close>

definition HEALTH_WARN_SESSION_HOURS :: rat where
  "HEALTH_WARN_SESSION_HOURS = 3"

definition HEALTH_WARN_CONSECUTIVE_DAYS :: nat where
  "HEALTH_WARN_CONSECUTIVE_DAYS = 7"

definition MAX_INTERACTIVE_SESSION_HOURS :: rat where
  "MAX_INTERACTIVE_SESSION_HOURS = 8"

text \<open>\<^verbatim>\<open>sessions.reduce((s, x) => s + x.durationHours, 0)\<close>: each addition rounds.\<close>

definition sumHours :: "session list \<Rightarrow> rat" where
  "sumHours sessions = foldl (\<lambda>s x. fadd s (durationHours x)) 0 sessions"

text \<open>
  \<^verbatim>\<open>
  const interactiveSessions = sessions.filter(s => s.durationHours <= MAX_INTERACTIVE_SESSION_HOURS);
  const maxSessionBase = interactiveSessions.length > 0 ? interactiveSessions : sessions;
  const maxSession = maxSessionBase.reduce(
    (max, s) => s.durationHours > max.durationHours ? s : max, maxSessionBase[0]);
  // Track whether we filtered out any very long sessions
  const hasAutonomousSessions = sessions.some(s => s.durationHours > MAX_INTERACTIVE_SESSION_HOURS);
  \<close>
  \<open>analyze\<close> reaches this code with a non-empty list only, so \<open>maxSessionBase[0]\<close> exists.
\<close>

definition interactiveSessions :: "session list \<Rightarrow> session list" where
  "interactiveSessions sessions =
     filter (\<lambda>s. durationHours s \<le> MAX_INTERACTIVE_SESSION_HOURS) sessions"

definition maxSessionBase :: "session list \<Rightarrow> session list" where
  "maxSessionBase sessions =
     (if length (interactiveSessions sessions) > 0 then interactiveSessions sessions
      else sessions)"

definition maxSessionOf :: "session list \<Rightarrow> session" where
  "maxSessionOf sessions =
     foldl (\<lambda>mx s. if durationHours s > durationHours mx then s else mx)
       (hd (maxSessionBase sessions)) (maxSessionBase sessions)"

definition hasAutonomous :: "session list \<Rightarrow> bool" where
  "hasAutonomous sessions =
     list_ex (\<lambda>s. durationHours s > MAX_INTERACTIVE_SESSION_HOURS) sessions"

text \<open>
  \<^verbatim>\<open>
  const byDate = {};
  for (const s of sessions) {
    const day = s.start.toLocaleDateString('en-CA');
    if (!byDate[day]) byDate[day] = { sessions: [], hours: 0 };
    byDate[day].sessions.push(s);
    byDate[day].hours += s.durationHours;
  }
  const activeDays = Object.keys(byDate).sort();
  \<close>
  The object is the list of its entries in the order of insertion; \<open>byDateStep\<close> is the
  body of the loop. A date key is never
  the name of a property that an empty object inherits. The default \<open>sort\<close> compares
  strings by their characters.
\<close>

type_synonym dayEntry = "session list \<times> rat"

definition byDateStep :: "platform \<Rightarrow> (string \<times> dayEntry) list \<Rightarrow> session \<Rightarrow> (string \<times> dayEntry) list" where
  "byDateStep P byDate s =
     (let day = toLocaleDateString P (start s);
          entry = (case map_of byDate day of None \<Rightarrow> ([], 0) | Some e \<Rightarrow> e)
      in AList.update day (fst entry @ [s], fadd (snd entry) (durationHours s)) byDate)"

definition byDateOf :: "platform \<Rightarrow> session list \<Rightarrow> (string \<times> dayEntry) list" where
  "byDateOf P sessions = foldl (byDateStep P) [] sessions"

definition activeDaysOf :: "platform \<Rightarrow> session list \<Rightarrow> string list" where
  "activeDaysOf P sessions = sort (map fst (byDateOf P sessions))"

text \<open>
  \<^verbatim>\<open>(new Date(b) - new Date(a)) / (1000 * 60 * 60 * 24)\<close> for two date keys; \<open>None\<close> is
  \<open>NaN\<close>. The difference of the two time values is an integer, which the division
  reads as a double.
\<close>

definition diffDays :: "platform \<Rightarrow> string \<Rightarrow> string \<Rightarrow> rat option" where
  "diffDays P b a =
     (case (Date_parse P b, Date_parse P a) of
        (Some y, Some x) \<Rightarrow> Some (fdiv (of_int (y - x)) (1000 * 60 * 60 * 24))
      | _ \<Rightarrow> None)"

text \<open>\<^verbatim>\<open>Math.ceil((new Date(lastDay) - new Date(firstDay)) / (1000 * 60 * 60 * 24)) + 1\<close>\<close>

definition totalDaysSpanOf :: "platform \<Rightarrow> string \<Rightarrow> string \<Rightarrow> int option" where
  "totalDaysSpanOf P firstDay lastDay =
     (case diffDays P lastDay firstDay of
        None \<Rightarrow> None
      | Some q \<Rightarrow> Some (\<lceil>q\<rceil> + 1))"

text \<open>
  \<^verbatim>\<open>
  const dowHours = [0, 0, 0, 0, 0, 0, 0];
  for (const s of sessions) { dowHours[s.start.getDay()] += s.durationHours; }
  const hourBuckets = new Array(24).fill(0);
  for (const s of sessions) { hourBuckets[s.start.getHours()] += s.durationHours; }
  \<close>
  \<open>getDay\<close> is below 7 and \<open>getHours\<close> below 24, so every index is in range. \<open>dowStep\<close>
  and \<open>hourStep\<close> are the bodies of the two loops.
\<close>

definition dowStep :: "platform \<Rightarrow> rat list \<Rightarrow> session \<Rightarrow> rat list" where
  "dowStep P dow s =
     dow[getDay P (start s) := fadd (dow ! getDay P (start s)) (durationHours s)]"

definition dowHoursOf :: "platform \<Rightarrow> session list \<Rightarrow> rat list" where
  "dowHoursOf P sessions = foldl (dowStep P) [0, 0, 0, 0, 0, 0, 0] sessions"

definition hourStep :: "platform \<Rightarrow> rat list \<Rightarrow> session \<Rightarrow> rat list" where
  "hourStep P hb s =
     hb[getHours P (start s) := fadd (hb ! getHours P (start s)) (durationHours s)]"

definition hourBucketsOf :: "platform \<Rightarrow> session list \<Rightarrow> rat list" where
  "hourBucketsOf P sessions = foldl (hourStep P) (replicate 24 0) sessions"

text \<open>
  \<^verbatim>\<open>
  const projectHours = {};
  for (const s of sessions) {
    const p = s.project;
    projectHours[p] = (projectHours[p] || 0) + s.durationHours;
  }
  \<close>
  \<open>projectHours\<close> starts as an empty object, which inherits the properties of
  \<open>Object.prototype\<close>. For a label that is one of their names the first read of
  \<open>projectHours[p]\<close> yields the inherited function (truthy), and \<open>+\<close> makes a string of it
  and the number; from then on the entry holds a string. The value \<open>None\<close> stands for
  such a string (its text is not modelled). An assignment to \<open>__proto__\<close> with a string
  is ignored by the inherited setter, so that label never becomes an entry.
  \<open>projectStep\<close> is the body of the loop.
\<close>

definition Object_prototype_names :: "string list" where
  "Object_prototype_names =
     [''constructor'', ''__defineGetter__'', ''__defineSetter__'', ''hasOwnProperty'',
      ''__lookupGetter__'', ''__lookupSetter__'', ''isPrototypeOf'',
      ''propertyIsEnumerable'', ''toString'', ''valueOf'', ''__proto__'',
      ''toLocaleString'']"

definition projectStep :: "(string \<times> rat option) list \<Rightarrow> session \<Rightarrow> (string \<times> rat option) list" where
  "projectStep ph s =
     (let p = project s;
          v = (case map_of ph p of
                 Some (Some x) \<Rightarrow> Some (fadd x (durationHours s))
               | Some None \<Rightarrow> None
               | None \<Rightarrow>
                   if p \<in> set Object_prototype_names then None
                   else Some (fadd 0 (durationHours s)))
      in if p = ''__proto__'' then ph else AList.update p v ph)"

definition projectHoursOf :: "session list \<Rightarrow> (string \<times> rat option) list" where
  "projectHoursOf sessions = foldl projectStep [] sessions"

text \<open>
  \<^verbatim>\<open>
  let maxStreak = 1;
  let currentStreak = 1;
  for (let i = 1; i < activeDays.length; i++) {
    const prev = new Date(activeDays[i - 1]);
    const curr = new Date(activeDays[i]);
    const diffDays = (curr - prev) / (1000 * 60 * 60 * 24);
    if (diffDays === 1) {
      currentStreak++;
      maxStreak = Math.max(maxStreak, currentStreak);
    } else {
      currentStreak = 1;
    }
  }
  \<close>
  \<open>streakLoop\<close> is the loop from index \<open>i\<close> on: \<open>prev\<close> is \<open>activeDays[i - 1]\<close>, and the
  list holds \<open>activeDays[i]\<close> (the \<open>curr\<close> of the source, here \<open>cur\<close>) and what follows.
\<close>

fun streakLoop :: "platform \<Rightarrow> string \<Rightarrow> string list \<Rightarrow> nat \<Rightarrow> nat \<Rightarrow> nat" where
  "streakLoop P prev [] maxStreak currentStreak = maxStreak"
| "streakLoop P prev (cur # days) maxStreak currentStreak =
     (if diffDays P cur prev = Some 1 then
        streakLoop P cur days (max maxStreak (currentStreak + 1)) (currentStreak + 1)
      else streakLoop P cur days maxStreak 1)"

definition maxStreakOf :: "platform \<Rightarrow> string list \<Rightarrow> nat" where
  "maxStreakOf P activeDays =
     (case activeDays of
        [] \<Rightarrow> 1
      | d # days \<Rightarrow> streakLoop P d days 1 1)"

text \<open>The health warnings, in the order of the four \<open>if\<close> statements of the source.\<close>

datatype level = Info | Warn | Alert

record warning =
  level :: level
  msg :: string

definition longSessions :: "session list \<Rightarrow> session list" where
  "longSessions sessions =
     filter (\<lambda>s. durationHours s \<ge> HEALTH_WARN_SESSION_HOURS) sessions"

definition warningsOf :: "session list \<Rightarrow> nat \<Rightarrow> rat \<Rightarrow> rat \<Rightarrow> warning list" where
  "warningsOf sessions maxStreak avgDuration avgDailyHours =
     (if length (longSessions sessions) > 0 then
        [\<lparr>level = Warn,
          msg = show_int (int (length (longSessions sessions))) @
            '' session(s) over 3h without a break. Your spine has opinions.''\<rparr>]
      else []) @
     (if maxStreak \<ge> HEALTH_WARN_CONSECUTIVE_DAYS then
        [\<lparr>level = Warn,
          msg = show_int (int maxStreak) @
            '' consecutive days of AI usage. Rest days exist for a reason.''\<rparr>]
      else []) @
     (if avgDuration > 2 then
        [\<lparr>level = Info,
          msg = ''Average session is '' @ toFixed1 avgDuration @
            ''h. The 90-minute focus/break cycle is backed by research.''\<rparr>]
      else []) @
     (if avgDailyHours > 6 then
        [\<lparr>level = Alert,
          msg = toFixed1 avgDailyHours @ ''h/day average. That'' @ [CHR 0x27] @
            ''s a full workday of sitting. Stretch. Now.''\<rparr>]
      else [])"

text \<open>
  \<^verbatim>\<open>
  const today = new Date().toLocaleDateString('en-CA');
  const sevenDaysAgo = new Date(Date.now() - 7 * 24 * 60 * 60 * 1000).toLocaleDateString('en-CA');
  const recent7 = activeDays.filter(d => d > sevenDaysAgo && d <= today);
  const recent7Hours = recent7.reduce((sum, d) => sum + byDate[d].hours, 0);
  \<close>
  Both readings of the clock are the one \<open>Date_now\<close>. Every active day is a key of
  \<open>byDate\<close>.
\<close>

definition recent7Of :: "platform \<Rightarrow> string list \<Rightarrow> string list" where
  "recent7Of P activeDays =
     (let today = toLocaleDateString P (Date_now P);
          sevenDaysAgo = toLocaleDateString P (Date_now P - 7 * 24 * 60 * 60 * 1000)
      in filter (\<lambda>d. d > sevenDaysAgo \<and> d \<le> today) activeDays)"

definition recent7HoursOf :: "(string \<times> dayEntry) list \<Rightarrow> string list \<Rightarrow> rat" where
  "recent7HoursOf byDate recent7 =
     foldl (\<lambda>sum d. fadd sum (case map_of byDate d of None \<Rightarrow> 0 | Some e \<Rightarrow> snd e)) 0 recent7"

text \<open>The AnalysisResult that \<open>analyze\<close> returns.\<close>

record analysis =
  totalSessions :: nat
  totalHours :: rat
  avgDuration :: rat
  maxSession :: session
  hasAutonomousSessions :: bool
  activeDays :: "string list"
  totalDaysSpan :: "int option"
  byDate :: "(string \<times> dayEntry) list"
  dowHours :: "rat list"
  dowNames :: "string list"
  hourBuckets :: "rat list"
  projectHours :: "(string \<times> rat option) list"
  maxStreak :: nat
  warnings :: "warning list"
  firstDay :: string
  lastDay :: string
  recent7Days :: nat
  recent7Hours :: rat
  avgDailyHours :: rat

text \<open>
  \<^verbatim>\<open>function analyze(sessions) { if (sessions.length === 0) return null; ... }\<close>
  \<open>None\<close> is \<open>null\<close>.
\<close>

definition analyze :: "platform \<Rightarrow> session list \<Rightarrow> analysis option" where
  "analyze P sessions =
     (if length sessions = 0 then None
      else
        let total = sumHours sessions;
            avg = fdiv total (of_nat (length sessions));
            days = activeDaysOf P sessions;
            streak = maxStreakOf P days;
            avgDaily = fdiv total (of_nat (length days));
            recent7 = recent7Of P days
        in Some
          \<lparr>totalSessions = length sessions,
            totalHours = total,
            avgDuration = avg,
            maxSession = maxSessionOf sessions,
            hasAutonomousSessions = hasAutonomous sessions,
            activeDays = days,
            totalDaysSpan = totalDaysSpanOf P (hd days) (last days),
            byDate = byDateOf P sessions,
            dowHours = dowHoursOf P sessions,
            dowNames = [''Sun'', ''Mon'', ''Tue'', ''Wed'', ''Thu'', ''Fri'', ''Sat''],
            hourBuckets = hourBucketsOf P sessions,
            projectHours = projectHoursOf sessions,
            maxStreak = streak,
            warnings = warningsOf sessions streak avg avgDaily,
            firstDay = hd days,
            lastDay = last days,
            recent7Days = length recent7,
            recent7Hours = recent7HoursOf (byDateOf P sessions) recent7,
            avgDailyHours = avgDaily\<rparr>)"

subsection \<open>The JSON document: \<^verbatim>\<open>buildJsonOutput\<close>\<close>

text \<open>
  \<^verbatim>\<open>Math.round(x * 100) / 100\<close>: the product is rounded to a double, \<open>Math.round\<close> gives
  the integer nearest to that double, a half upwards, and the quotient is rounded to a
  double again.
\<close>

definition round2 :: "rat \<Rightarrow> rat" where
  "round2 x = fdiv (of_int \<lfloor>fmul x 100 + 1 / 2\<rfloor>) 100"

text \<open>
  \<^verbatim>\<open>Object.entries(o)\<close>: the keys that are array indices first, in ascending numeric
  order, then the other keys in the order of their insertion.
\<close>

definition isDigit :: "char \<Rightarrow> bool" where
  "isDigit c = (CHR ''0'' \<le> c \<and> c \<le> CHR ''9'')"

definition read_nat :: "string \<Rightarrow> nat" where
  "read_nat s = foldl (\<lambda>n c. 10 * n + (of_char c - 48)) 0 s"

definition isArrayIndex :: "string \<Rightarrow> bool" where
  "isArrayIndex s =
     (s \<noteq> [] \<and> list_all isDigit s \<and> (s = ''0'' \<or> hd s \<noteq> CHR ''0'') \<and>
      length s \<le> 10 \<and> read_nat s \<le> 4294967294)"

definition Object_entries :: "(string \<times> 'a) list \<Rightarrow> (string \<times> 'a) list" where
  "Object_entries obj =
     sort_key (\<lambda>e. read_nat (fst e)) (filter (\<lambda>e. isArrayIndex (fst e)) obj) @
     filter (\<lambda>e. \<not> isArrayIndex (fst e)) obj"

text \<open>
  The document. The keys \<open>totalSessions\<close>, \<open>totalHours\<close>, \<open>activeDays\<close> and
  \<open>totalDaysSpan\<close> carry the suffix \<open>_out\<close> here, and a nested key is written with \<open>_\<close>
  (\<open>averages.perSession\<close> is \<open>averages_perSession\<close>). A number that can be \<open>NaN\<close> is an
  option.
\<close>

record json_output =
  version :: string
  totalSessions_out :: nat
  totalHours_out :: rat
  activeDays_out :: nat
  totalDaysSpan_out :: "int option"
  firstSeen :: string
  lastSeen :: string
  averages_perSession :: rat
  averages_perDay :: rat
  longestSession_hours :: rat
  longestSession_date :: string
  longestSession_project :: string
  hoursByDayOfWeek :: "(string \<times> rat option) list"
  topProjects :: "(string \<times> rat option) list"
  streak :: nat
  healthWarnings :: "string list"
  last7Days_hours :: rat
  last7Days_activeDays :: nat

text \<open>
  \<^verbatim>\<open>
  for (let i = 0; i < 7; i++) {
    hoursByDayOfWeek[dowNames[i]] = Math.round(stats.dowHours[i] * 100) / 100;
  }
  const topProjects = Object.entries(stats.projectHours)
    .sort((a, b) => b[1] - a[1])
    .map(([name, hours]) => ({ name, hours: Math.round(hours * 100) / 100 }));
  \<close>
  An index beyond the array reads \<open>undefined\<close>, which rounds to \<open>NaN\<close>; so does a string
  that is not a number. \<open>b[1] - a[1]\<close> is \<open>NaN\<close> when one of the two is such a string,
  and then it is not below zero.

  \<open>sort\<close> is the stable sort when the comparator is consistent: when all hours are
  numbers, and when no entry is put before another (\<open>NaN\<close> counts as zero, so then all
  comparisons are ties). Otherwise the order is the one of the platform.
\<close>

definition hoursByDayOfWeekOf :: "rat list \<Rightarrow> (string \<times> rat option) list" where
  "hoursByDayOfWeekOf dow =
     map (\<lambda>i. ([''Sun'', ''Mon'', ''Tue'', ''Wed'', ''Thu'', ''Fri'', ''Sat''] ! i,
               if i < length dow then Some (round2 (dow ! i)) else None))
       [0, 1, 2, 3, 4, 5, 6]"

definition hoursDescending :: "string \<times> rat option \<Rightarrow> string \<times> rat option \<Rightarrow> bool" where
  "hoursDescending a b =
     (case (snd b, snd a) of
        (Some y, Some x) \<Rightarrow> fsub y x < 0
      | _ \<Rightarrow> False)"

definition consistentHours :: "(string \<times> rat option) list \<Rightarrow> bool" where
  "consistentHours es =
     (list_all (\<lambda>e. snd e \<noteq> None) es \<or>
      list_all (\<lambda>a. list_all (\<lambda>b. \<not> hoursDescending a b) es) es)"

definition sortByHours :: "platform \<Rightarrow> (string \<times> rat option) list \<Rightarrow> (string \<times> rat option) list" where
  "sortByHours P es =
     (if consistentHours es then sort_by hoursDescending es else sort_inconsistent P es)"

definition topProjectsOf :: "platform \<Rightarrow> (string \<times> rat option) list \<Rightarrow> (string \<times> rat option) list" where
  "topProjectsOf P ph =
     map (\<lambda>e. (fst e, map_option round2 (snd e)))
       (sortByHours P (Object_entries ph))"

definition buildJsonOutput :: "platform \<Rightarrow> analysis \<Rightarrow> json_output" where
  "buildJsonOutput P stats =
     (let ms = maxSession stats in
      \<lparr>version = ''1.0'',
        totalSessions_out = totalSessions stats,
        totalHours_out = round2 (totalHours stats),
        activeDays_out = length (activeDays stats),
        totalDaysSpan_out = totalDaysSpan stats,
        firstSeen = firstDay stats,
        lastSeen = lastDay stats,
        averages_perSession = round2 (avgDuration stats),
        averages_perDay = round2 (avgDailyHours stats),
        longestSession_hours = round2 (durationHours ms),
        longestSession_date = toLocaleDateString P (start ms),
        longestSession_project = project ms,
        hoursByDayOfWeek = hoursByDayOfWeekOf (dowHours stats),
        topProjects = topProjectsOf P (projectHours stats),
        streak = maxStreak stats,
        healthWarnings = map msg (warnings stats),
        last7Days_hours = round2 (recent7Hours stats),
        last7Days_activeDays = recent7Days stats\<rparr>)"

subsection \<open>The entry point: \<^verbatim>\<open>main\<close>\<close>

text \<open>
  What a run writes to standard output, and its exit code. \<open>Write\<close> is
  \<^verbatim>\<open>process.stdout.write\<close>, \<open>Log\<close> is \<^verbatim>\<open>console.log\<close> of a text, \<open>LogJson\<close> is
  \<^verbatim>\<open>console.log(JSON.stringify(doc, null, 2))\<close> and \<open>Display\<close> is the console report
  \<^verbatim>\<open>display(stats)\<close>; the two renderers are not modelled further.
\<close>

datatype out_item =
    Write string
  | Log string
  | LogJson json_output
  | Display analysis

record run =
  stdout :: "out_item list"
  exitCode :: nat

text \<open>\<^verbatim>\<open>JSON.stringify({ error: m }, null, 2)\<close> for a message of plain characters.\<close>

definition quoted :: "string \<Rightarrow> string" where
  "quoted s = [CHR 0x22] @ s @ [CHR 0x22]"

definition errorJson :: "string \<Rightarrow> string" where
  "errorJson m = ''{'' @ [newline] @ ''  '' @ quoted ''error'' @ '': '' @ quoted m @ [newline] @ ''}''"

text \<open>
  \<^verbatim>\<open>
  async function main() {
    const jsonMode = process.argv.includes('--json');
    if (!jsonMode) { process.stdout.write(`  Scanning sessions...`); }
    const sessions = await scanSessions(claudeDir);
    if (!jsonMode) { process.stdout.write(`\r                        \r`); }
    if (sessions.length === 0) {
      if (jsonMode) { console.log(JSON.stringify({ error: 'No sessions found' }, null, 2)); }
      else { console.log('  No Claude Code sessions found in ~/.claude/projects/');
             console.log('  Run Claude Code at least once to generate session data.'); }
      process.exit(1);
    }
    const stats = analyze(sessions);
    if (!stats) {
      if (jsonMode) { console.log(JSON.stringify({ error: 'Could not analyze sessions' }, null, 2)); }
      else { console.log('  Could not analyze sessions.'); }
      process.exit(1);
    }
    if (jsonMode) { console.log(JSON.stringify(buildJsonOutput(stats), null, 2)); }
    else { display(stats); }
  }
  \<close>
  A run that reaches the end of \<open>main\<close> exits with code 0.
\<close>

definition main :: "platform \<Rightarrow> bool \<Rightarrow> node option \<Rightarrow> run" where
  "main P jsonMode claudeDir =
     (let spinner =
            (if \<not> jsonMode then
               [Write ''  Scanning sessions...'',
                Write ([CHR 0x0D] @ replicate 24 CHR '' '' @ [CHR 0x0D])]
             else []);
          sessions = scanSessions P claudeDir
      in
      if length sessions = 0 then
        \<lparr>stdout = spinner @
           (if jsonMode then [Log (errorJson ''No sessions found'')]
            else [Log ''  No Claude Code sessions found in ~/.claude/projects/'',
                  Log ''  Run Claude Code at least once to generate session data.'']),
          exitCode = 1\<rparr>
      else
        (case analyze P sessions of
           None \<Rightarrow>
             \<lparr>stdout = spinner @
                (if jsonMode then [Log (errorJson ''Could not analyze sessions'')]
                 else [Log ''  Could not analyze sessions.'']),
               exitCode = 1\<rparr>
         | Some stats \<Rightarrow>
             \<lparr>stdout = spinner @
                [if jsonMode then LogJson (buildJsonOutput P stats) else Display stats],
               exitCode = 0\<rparr>))"

subsection \<open>A concrete platform for the examples\<close>

text \<open>
  A reader for JSON texts of ASCII characters, after the grammar of ECMA-404. The
  escape \<open>\u\<close> is not covered (the reader rejects it). \<open>parse_value\<close> counts its calls
  down from a bound that no text exhausts: every call consumes a character.
\<close>

definition skip_ws :: "string \<Rightarrow> string" where
  "skip_ws s = dropWhile (\<lambda>c. c \<in> {CHR 0x20, CHR 0x09, CHR 0x0A, CHR 0x0D}) s"

definition unescape :: "char \<Rightarrow> char option" where
  "unescape c =
     (if c = CHR 0x22 then Some (CHR 0x22)
      else if c = CHR 0x5C then Some (CHR 0x5C)
      else if c = CHR ''/'' then Some CHR ''/''
      else if c = CHR ''b'' then Some (CHR 0x08)
      else if c = CHR ''f'' then Some (CHR 0x0C)
      else if c = CHR ''n'' then Some (CHR 0x0A)
      else if c = CHR ''r'' then Some (CHR 0x0D)
      else if c = CHR ''t'' then Some (CHR 0x09)
      else None)"

fun string_body :: "string \<Rightarrow> (string \<times> string) option" where
  "string_body [] = None"
| "string_body [c] = (if c = CHR 0x22 then Some ([], []) else None)"
| "string_body (c # d # cs) =
     (if c = CHR 0x22 then Some ([], d # cs)
      else if c = CHR 0x5C then
        (case unescape d of
           None \<Rightarrow> None
         | Some e \<Rightarrow> map_option (\<lambda>r. (e # fst r, snd r)) (string_body cs))
      else if (of_char c :: nat) < 32 then None
      else map_option (\<lambda>r. (c # fst r, snd r)) (string_body (d # cs)))"

text \<open>
  A number: an optional minus, an integer part without a leading zero, an optional
  fraction and an optional exponent.
\<close>

definition number_text :: "string \<Rightarrow> (rat \<times> string) option" where
  "number_text s =
     (let neg = startsWith s ''-'';
          s1 = (if neg then tl s else s);
          ip = takeWhile isDigit s1;
          s2 = dropWhile isDigit s1;
          hasFrac = startsWith s2 ''.'';
          fp = (if hasFrac then takeWhile isDigit (tl s2) else []);
          s3 = (if hasFrac then dropWhile isDigit (tl s2) else s2);
          hasExp = (startsWith s3 ''e'' \<or> startsWith s3 ''E'');
          s4 = (if hasExp then tl s3 else s3);
          eneg = (hasExp \<and> startsWith s4 ''-'');
          s5 = (if hasExp \<and> (startsWith s4 ''-'' \<or> startsWith s4 ''+'') then tl s4 else s4);
          ep = (if hasExp then takeWhile isDigit s5 else []);
          s6 = (if hasExp then dropWhile isDigit s5 else s3);
          mant = (of_nat (read_nat ip) + of_nat (read_nat fp) / 10 ^ length fp :: rat);
          scaled = (if eneg then mant / 10 ^ read_nat ep else mant * 10 ^ read_nat ep)
      in
      if ip = [] \<or> (length ip > 1 \<and> hd ip = CHR ''0'') \<or> (hasFrac \<and> fp = []) \<or> (hasExp \<and> ep = [])
      then None
      else Some (if neg then - scaled else scaled, s6))"

fun parse_value :: "nat \<Rightarrow> string \<Rightarrow> (json \<times> string) option"
  and parse_elements :: "nat \<Rightarrow> string \<Rightarrow> json list \<Rightarrow> (json \<times> string) option"
  and parse_members :: "nat \<Rightarrow> string \<Rightarrow> (string \<times> json) list \<Rightarrow> (json \<times> string) option"
where
  "parse_value 0 s = None"
| "parse_value (Suc n) s =
     (case skip_ws s of
        [] \<Rightarrow> None
      | c # cs \<Rightarrow>
          if c = CHR ''{'' then
            (if startsWith (skip_ws cs) ''}'' then Some (JObj [], tl (skip_ws cs))
             else parse_members n cs [])
          else if c = CHR ''['' then
            (if startsWith (skip_ws cs) '']'' then Some (JArr [], tl (skip_ws cs))
             else parse_elements n cs [])
          else if c = CHR 0x22 then map_option (\<lambda>r. (JStr (fst r), snd r)) (string_body cs)
          else if startsWith (c # cs) ''true'' then Some (JBool True, drop 4 (c # cs))
          else if startsWith (c # cs) ''false'' then Some (JBool False, drop 5 (c # cs))
          else if startsWith (c # cs) ''null'' then Some (JNull, drop 4 (c # cs))
          else map_option (\<lambda>r. (JNum (fst r), snd r)) (number_text (c # cs)))"
| "parse_elements 0 s acc = None"
| "parse_elements (Suc n) s acc =
     (case parse_value n s of
        None \<Rightarrow> None
      | Some (v, r) \<Rightarrow>
          if startsWith (skip_ws r) '','' then parse_elements n (tl (skip_ws r)) (acc @ [v])
          else if startsWith (skip_ws r) '']'' then Some (JArr (acc @ [v]), tl (skip_ws r))
          else None)"
| "parse_members 0 s acc = None"
| "parse_members (Suc n) s acc =
     (if \<not> startsWith (skip_ws s) [CHR 0x22] then None
      else
        (case string_body (tl (skip_ws s)) of
           None \<Rightarrow> None
         | Some (k, r) \<Rightarrow>
             if \<not> startsWith (skip_ws r) '':'' then None
             else
               (case parse_value n (tl (skip_ws r)) of
                  None \<Rightarrow> None
                | Some (v, r') \<Rightarrow>
                    if startsWith (skip_ws r') '','' then
                      parse_members n (tl (skip_ws r')) (AList.update k v acc)
                    else if startsWith (skip_ws r') ''}'' then
                      Some (JObj (AList.update k v acc), tl (skip_ws r'))
                    else None)))"

definition json_text :: "string \<Rightarrow> json option" where
  "json_text s =
     (case parse_value (2 * length s + 2) s of
        None \<Rightarrow> None
      | Some (v, r) \<Rightarrow> if skip_ws r = [] then Some v else None)"

text \<open>
  \<^verbatim>\<open>Date.parse\<close> on the date-time format of the language: \<open>YYYY-MM-DD\<close>, read as UTC
  midnight, and \<open>YYYY-MM-DDTHH:mm:ssZ\<close> with optional milliseconds \<open>.sss\<close>. Every other
  string is no date here.
\<close>

definition days_from_civil :: "int \<Rightarrow> int \<Rightarrow> int \<Rightarrow> int" where
  "days_from_civil y m d =
     (let y' = (if m \<le> 2 then y - 1 else y);
          era = y' div 400;
          yoe = y' mod 400;
          doy = (153 * (if m > 2 then m - 3 else m + 9) + 2) div 5 + d - 1;
          doe = yoe * 365 + yoe div 4 - yoe div 100 + doy
      in era * 146097 + doe - 719468)"

definition digits :: "string \<Rightarrow> int option" where
  "digits s = (if s \<noteq> [] \<and> list_all isDigit s then Some (int (read_nat s)) else None)"

definition iso_date :: "string \<Rightarrow> int option" where
  "iso_date s =
     (case (digits (take 4 s), digits (take 2 (drop 5 s)), digits (take 2 (drop 8 s))) of
        (Some y, Some m, Some d) \<Rightarrow>
          if length s = 10 \<and> s ! 4 = CHR ''-'' \<and> s ! 7 = CHR ''-'' \<and>
             1 \<le> m \<and> m \<le> 12 \<and> 1 \<le> d \<and> d \<le> 31
          then Some (days_from_civil y m d * 86400000)
          else None
      | _ \<Rightarrow> None)"

definition iso_time :: "string \<Rightarrow> int option" where
  "iso_time s =
     (case (digits (take 2 s), digits (take 2 (drop 3 s)), digits (take 2 (drop 6 s))) of
        (Some h, Some mi, Some sec) \<Rightarrow>
          if s ! 2 = CHR '':'' \<and> s ! 5 = CHR '':'' \<and> h \<le> 23 \<and> mi \<le> 59 \<and> sec \<le> 59 then
            (if length s = 8 then Some (h * 3600000 + mi * 60000 + sec * 1000)
             else
               (case digits (drop 9 s) of
                  Some ms \<Rightarrow>
                    if length s = 12 \<and> s ! 8 = CHR ''.'' then
                      Some (h * 3600000 + mi * 60000 + sec * 1000 + ms)
                    else None
                | None \<Rightarrow> None))
          else None
      | _ \<Rightarrow> None)"

definition iso_date_time :: "string \<Rightarrow> int option" where
  "iso_date_time s =
     (if length s = 10 then iso_date s
      else if (length s = 20 \<or> length s = 24) \<and> s ! 10 = CHR ''T'' \<and> last s = CHR ''Z'' then
        (case (iso_date (take 10 s), iso_time (butlast (drop 11 s))) of
           (Some d, Some t) \<Rightarrow> Some (d + t)
         | _ \<Rightarrow> None)
      else None)"

text \<open>
  The string of an array or object in \<open>new Date\<close>: \<open>[object Object]\<close> for an object
  without a key \<open>toString\<close> of its own, a TypeError with one; the elements of an array
  joined by commas, for arrays of strings (others are not covered: TypeError here).
\<close>

fun to_primitive :: "json \<Rightarrow> string option" where
  "to_primitive (JObj kvs) =
     (if ''toString'' \<in> fst ` set kvs then None else Some ''[object Object]'')"
| "to_primitive (JArr vs) =
     (if list_all (\<lambda>v. case v of JStr _ \<Rightarrow> True | _ \<Rightarrow> False) vs
      then Some (join_with '','' (map (\<lambda>v. case v of JStr s \<Rightarrow> s | _ \<Rightarrow> []) vs))
      else None)"
| "to_primitive _ = None"

text \<open>
  The platform of the examples: UTC as the local time zone, a clock that stands at
  2024-03-10T12:00:00Z, and a \<open>sort\<close> that leaves the entries in place when the
  comparator is inconsistent (one of the orders that the language allows).
\<close>

definition utc :: platform where
  "utc =
     \<lparr>JSON_parse = json_text,
       Date_parse = iso_date_time,
       ToPrimitive = to_primitive,
       localOffset = (\<lambda>t. 0),
       Date_now = 1710072000000,
       sort_inconsistent = (\<lambda>es. es)\<rparr>"

subsection \<open>A transcript store for the examples\<close>

text \<open>
  A transcript line with a time stamp, and a transcript file of a first and a last line.
  \<open>example_store\<close> is a \<open>.claude\<close> directory: project \<open>foo\<close> with the three sessions of
  the end-to-end scenario of the specification (one of them a subagent run), listed in
  an order that is not the order of their starts, with a file that is no transcript, a
  transcript that is too small, one whose end precedes its start and one that spans
  eight days; and a project directory that cannot be listed.
\<close>

definition transcript_line :: "string \<Rightarrow> string" where
  "transcript_line ts = ''{\"type\":\"user\",\"timestamp\":\"'' @ ts @ ''\"}''"

definition transcript :: "string \<Rightarrow> string \<Rightarrow> string" where
  "transcript ts1 ts2 = transcript_line ts1 @ [newline] @ transcript_line ts2 @ [newline]"

definition example_store :: "node option" where
  "example_store =
     Some (Dir True
       [(''projects'', Dir True
          [(''-home-alice-projects-foo'', Dir True
              [(''b.jsonl'', File True (transcript ''2024-01-01T14:00:00.000Z'' ''2024-01-01T14:00:00.000Z'')),
               (''a.jsonl'', File True (transcript ''2024-01-01T09:00:00.000Z'' ''2024-01-01T10:30:00.000Z'')),
               (''notes.txt'', File True (transcript ''2024-01-01T07:00:00.000Z'' ''2024-01-01T08:00:00.000Z'')),
               (''tiny.jsonl'', File True ''{\"ts\":1}''),
               (''back.jsonl'', File True (transcript ''2024-01-02T10:00:00.000Z'' ''2024-01-02T09:00:00.000Z'')),
               (''week.jsonl'', File True (transcript ''2024-01-01T00:00:00.000Z'' ''2024-01-09T00:00:00.000Z'')),
               (''a'', Dir True
                  [(''subagents'', Dir True
                      [(''agent-1.jsonl'',
                        File True (transcript ''2024-01-01T09:00:00.000Z'' ''2024-01-01T09:05:00.000Z''))])])]),
           (''-home-alice-projects-locked'', Dir False [])])])"

subsection \<open>Example sessions, and the notions that the properties use\<close>

text \<open>
  Sessions for the examples: one of \<open>h\<close> hours (the double nearest to \<open>h\<close>) that starts at
  the instant \<open>t\<close>.
\<close>

definition session_at :: "int \<Rightarrow> rat \<Rightarrow> session" where
  "session_at t h =
     \<lparr>project = ''foo'', start = t, endTime = t + \<lfloor>h * 3600000\<rfloor>,
       durationHours = double h, sizeBytes = 110\<rparr>"

text \<open>Seven sessions of seven hours on the seven days from 2024-01-01 on, at 09:00 UTC.\<close>

definition full_week :: "session list" where
  "full_week = map (\<lambda>i. session_at (1704099600000 + i * 86400000) 7) [0, 1, 2, 3, 4, 5, 6]"

text \<open>
  Two date keys are consecutive when the instants they denote lie exactly one day
  (86 400 000 ms) apart. A date key denotes the midnight of its day in UTC, so these
  are the keys of two calendar days that follow each other.
\<close>

definition consecutiveDays :: "platform \<Rightarrow> string \<Rightarrow> string \<Rightarrow> bool" where
  "consecutiveDays P a b =
     (case (Date_parse P a, Date_parse P b) of
        (Some x, Some y) \<Rightarrow> y - x = 86400000
      | _ \<Rightarrow> False)"

text \<open>A run of consecutive days in a list of date keys: a stretch of neighbours of the list.\<close>

definition streakRun :: "platform \<Rightarrow> string list \<Rightarrow> string list \<Rightarrow> bool" where
  "streakRun P days r = (r \<noteq> [] \<and> sublist r days \<and> successively (consecutiveDays P) r)"

text \<open>Sessions on the days D, D+1, D+2 and D+10, for D = 2024-01-01.\<close>

definition streak_days :: "session list" where
  "streak_days = map (\<lambda>i. session_at (1704099600000 + i * 86400000) 1) [0, 1, 2, 10]"





section \<open>Properties\<close>

subsection \<open>Rounding to doubles\<close>

lemma log2i_nonneg: "0 \<le> log2i n"
proof (induction n rule: log2i.induct)
  case (1 n)
  show ?case
  proof (cases "n < 2")
    case True
    then show ?thesis by (subst log2i.simps) simp
  next
    case False
    with "1.IH" have "0 \<le> log2i (n div 2)" by simp
    with False show ?thesis by (subst log2i.simps) simp
  qed
qed

lemma log2i_bounds:
  "1 \<le> n \<Longrightarrow> 2 ^ nat (log2i n) \<le> n \<and> n < 2 ^ nat (log2i n + 1)"
proof (induction n rule: log2i.induct)
  case (1 n)
  show ?case
  proof (cases "n < 2")
    case True
    with "1.prems" have "n = 1" by simp
    then have "log2i n = 0" by (subst log2i.simps) simp
    with \<open>n = 1\<close> show ?thesis by simp
  next
    case False
    then have h: "1 \<le> n div 2" by simp
    from "1.IH" [OF False h]
    have lo: "2 ^ nat (log2i (n div 2)) \<le> n div 2"
      and hi: "n div 2 < 2 ^ nat (log2i (n div 2) + 1)" by simp_all
    have e: "log2i n = 1 + log2i (n div 2)" using False by (subst log2i.simps) simp
    have n1: "nat (log2i n) = Suc (nat (log2i (n div 2)))"
      using log2i_nonneg [of "n div 2"] by (simp add: e nat_add_distrib)
    have n2: "nat (log2i n + 1) = Suc (nat (log2i (n div 2) + 1))"
      using log2i_nonneg [of "n div 2"] by (simp add: e nat_add_distrib)
    have "2 * 2 ^ nat (log2i (n div 2)) \<le> 2 * (n div 2)" using lo by simp
    also have "\<dots> \<le> n" by simp
    finally have a: "2 ^ nat (log2i n) \<le> n" by (simp add: n1)
    have "n div 2 + 1 \<le> 2 ^ nat (log2i (n div 2) + 1)" using hi by simp
    then have "2 * (n div 2) + 2 \<le> 2 * 2 ^ nat (log2i (n div 2) + 1)" by simp
    moreover have "n < 2 * (n div 2) + 2" by presburger
    ultimately have b: "n < 2 ^ nat (log2i n + 1)" by (simp add: n2)
    from a b show ?thesis by simp
  qed
qed

lemma ilog2_bounds:
  assumes "0 < a"
  shows "2 powi ilog2 a \<le> a" and "a < 2 powi (ilog2 a + 1)"
proof -
  have "2 powi ilog2 a \<le> a \<and> a < 2 powi (ilog2 a + 1)"
  proof (cases "1 \<le> a")
    case True
    let ?n = "\<lfloor>a\<rfloor>"
    let ?k = "log2i ?n"
    have n: "1 \<le> ?n" using True by (simp add: le_floor_iff)
    have k: "0 \<le> ?k" by (rule log2i_nonneg)
    from log2i_bounds [OF n] have lo: "2 ^ nat ?k \<le> ?n" and hi: "?n < 2 ^ nat (?k + 1)" by simp_all
    have "(of_int (2 ^ nat ?k) :: rat) \<le> of_int ?n" using lo by (simp only: of_int_le_iff)
    also have "\<dots> \<le> a" by simp
    finally have a1: "(2::rat) ^ nat ?k \<le> a" by simp
    have "?n + 1 \<le> 2 ^ nat (?k + 1)" using hi by simp
    then have "(of_int (?n + 1) :: rat) \<le> of_int (2 ^ nat (?k + 1))" by (simp only: of_int_le_iff)
    moreover have "a < of_int (?n + 1)" by linarith
    ultimately have a2: "a < (2::rat) ^ nat (?k + 1)" by simp
    have "ilog2 a = ?k" using True by (simp add: ilog2_def)
    with a1 a2 k show ?thesis by (simp add: power_int_nonneg_exp)
  next
    case False
    let ?b = "1 / a"
    let ?c = "\<lceil>?b\<rceil>"
    let ?m = "?c - 1"
    let ?j = "log2i ?m"
    have a1: "a < 1" using False by simp
    have b1: "1 < ?b" using assms a1 by (simp add: field_simps)
    have m: "1 \<le> ?m" using b1 by (simp add: less_ceiling_iff)
    have j: "0 \<le> ?j" by (rule log2i_nonneg)
    from log2i_bounds [OF m] have lo: "2 ^ nat ?j \<le> ?m" and hi: "?m < 2 ^ nat (?j + 1)" by simp_all
    have c: "?c \<le> 2 ^ nat (?j + 1)" using hi by simp
    have "?b \<le> of_int ?c" by (rule le_of_int_ceiling)
    also have "\<dots> \<le> of_int (2 ^ nat (?j + 1))" using c by (simp only: of_int_le_iff)
    also have "\<dots> = (2::rat) ^ nat (?j + 1)" by simp
    finally have "?b \<le> (2::rat) ^ nat (?j + 1)" .
    then have "1 \<le> a * (2::rat) ^ nat (?j + 1)" using assms by (simp add: field_simps)
    then have r1: "1 / (2::rat) ^ nat (?j + 1) \<le> a" by (simp add: field_simps)
    have "(2::rat) ^ nat ?j = of_int (2 ^ nat ?j)" by simp
    also have "\<dots> \<le> of_int ?m" using lo by (simp only: of_int_le_iff)
    also have "\<dots> < ?b" using ceiling_correct [of ?b] by simp
    finally have "(2::rat) ^ nat ?j < ?b" .
    then have "a * (2::rat) ^ nat ?j < 1" using assms by (simp add: field_simps)
    then have r2: "a < 1 / (2::rat) ^ nat ?j" by (simp add: field_simps)
    have e: "ilog2 a = - (?j + 1)" using False by (simp add: ilog2_def)
    have q: "0 \<le> ?j + 1" using j by simp
    have p1: "(2::rat) powi (- (?j + 1)) = 1 / 2 ^ nat (?j + 1)"
      by (simp only: power_int_minus_divide power_int_nonneg_exp [OF q])
    have "- (?j + 1) + 1 = - ?j" by simp
    then have p2: "(2::rat) powi (- (?j + 1) + 1) = 1 / 2 ^ nat ?j"
      by (simp only: power_int_minus_divide power_int_nonneg_exp [OF j])
    from r1 r2 show ?thesis unfolding e p1 p2 by simp
  qed
  then show "2 powi ilog2 a \<le> a" and "a < 2 powi (ilog2 a + 1)" by simp_all
qed

lemma roundTiesToEven_of_int [simp]: "roundTiesToEven (of_int k) = k"
  by (simp add: roundTiesToEven_def)

lemma roundTiesToEven_bounds: "\<lfloor>x\<rfloor> \<le> roundTiesToEven x" "roundTiesToEven x \<le> \<lfloor>x\<rfloor> + 1"
  by (simp_all add: roundTiesToEven_def Let_def)

lemma roundTiesToEven_mono:
  assumes "x \<le> y"
  shows "roundTiesToEven x \<le> roundTiesToEven y"
proof (cases "\<lfloor>x\<rfloor> = \<lfloor>y\<rfloor>")
  case True
  then have "x - of_int \<lfloor>x\<rfloor> \<le> y - of_int \<lfloor>y\<rfloor>" using assms by simp
  with True show ?thesis by (auto simp add: roundTiesToEven_def Let_def)
next
  case False
  moreover have "\<lfloor>x\<rfloor> \<le> \<lfloor>y\<rfloor>" using assms by (rule floor_mono)
  ultimately have "\<lfloor>x\<rfloor> + 1 \<le> \<lfloor>y\<rfloor>" by simp
  with roundTiesToEven_bounds(2) [of x] roundTiesToEven_bounds(1) [of y] show ?thesis by linarith
qed

lemma ilog2_mono:
  assumes "0 < x" and "x \<le> y"
  shows "ilog2 x \<le> ilog2 y"
proof (rule ccontr)
  assume "\<not> ilog2 x \<le> ilog2 y"
  then have "ilog2 y + 1 \<le> ilog2 x" by simp
  then have "(2::rat) powi (ilog2 y + 1) \<le> 2 powi ilog2 x" by (rule power_int_increasing) simp
  also have "\<dots> \<le> x" using assms(1) by (rule ilog2_bounds)
  also have "\<dots> \<le> y" by (rule assms)
  also have "\<dots> < 2 powi (ilog2 y + 1)" using assms by (intro ilog2_bounds) simp
  finally show False by simp
qed

text \<open>The exponent of the last place of a double, and the double of a positive number.\<close>

lemma double_pos:
  "0 < x \<Longrightarrow>
   double x =
     of_int (roundTiesToEven (x / 2 powi max (ilog2 x - 52) (- 1074))) *
       2 powi max (ilog2 x - 52) (- 1074)"
  by (simp add: double_def Let_def)

lemma double_minus: "double (- x) = - double x"
  by (simp add: double_def Let_def sgn_minus)

lemma double_zero [simp]: "double 0 = 0"
  by (simp add: double_def)

lemma double_nonneg: "0 \<le> x \<Longrightarrow> 0 \<le> double x"
proof (cases "x = 0")
  case True
  then show ?thesis by simp
next
  case False
  assume "0 \<le> x"
  with False have p: "0 < x" by simp
  let ?e = "max (ilog2 x - 52) (- 1074)"
  have "0 \<le> x / 2 powi ?e" using p by simp
  then have "0 \<le> \<lfloor>x / 2 powi ?e\<rfloor>" by simp
  with roundTiesToEven_bounds(1) [of "x / 2 powi ?e"]
  have "0 \<le> roundTiesToEven (x / 2 powi ?e)" by linarith
  then have "(0::rat) \<le> of_int (roundTiesToEven (x / 2 powi ?e)) * 2 powi ?e" by simp
  then show ?thesis by (simp only: double_pos [OF p])
qed

lemma double_mono_pos:
  assumes "0 < x" and "x \<le> y"
  shows "double x \<le> double y"
proof -
  define ex where "ex = max (ilog2 x - 52) (- 1074)"
  define ey where "ey = max (ilog2 y - 52) (- 1074)"
  have py: "0 < y" using assms by simp
  have dx: "double x = of_int (roundTiesToEven (x / 2 powi ex)) * 2 powi ex"
    unfolding ex_def by (rule double_pos [OF assms(1)])
  have dy: "double y = of_int (roundTiesToEven (y / 2 powi ey)) * 2 powi ey"
    unfolding ey_def by (rule double_pos [OF py])
  have le: "ex \<le> ey" using ilog2_mono [OF assms] by (simp add: ex_def ey_def)
  have pex: "(0::rat) < 2 powi ex" and pey: "(0::rat) < 2 powi ey" by simp_all
  show ?thesis
  proof (cases "ex = ey")
    case True
    have "x / 2 powi ey \<le> y / 2 powi ey" using assms(2) pey by (simp add: divide_right_mono)
    then have "roundTiesToEven (x / 2 powi ey) \<le> roundTiesToEven (y / 2 powi ey)"
      by (rule roundTiesToEven_mono)
    then have "(of_int (roundTiesToEven (x / 2 powi ey)) :: rat) \<le>
               of_int (roundTiesToEven (y / 2 powi ey))" by (simp only: of_int_le_iff)
    then have "of_int (roundTiesToEven (x / 2 powi ey)) * 2 powi ey \<le>
               of_int (roundTiesToEven (y / 2 powi ey)) * (2::rat) powi ey"
      using pey by (intro mult_right_mono) simp_all
    then show ?thesis by (simp only: dx dy True)
  next
    case False
    with le have lt: "ex + 1 \<le> ey" by simp
    have "- 1074 \<le> ex" by (simp add: ex_def)
    with lt have eyn: "ey = ilog2 y - 52" by (simp add: ey_def)
    have exl: "ilog2 x + 1 \<le> ex + 53" by (simp add: ex_def)
    \<comment> \<open>the double of \<open>x\<close> is at most \<open>2 powi (ex + 53)\<close>\<close>
    have "x < 2 powi (ilog2 x + 1)" using assms(1) by (rule ilog2_bounds)
    also have "\<dots> \<le> 2 powi (ex + 53)" using exl by (rule power_int_increasing) simp
    also have "\<dots> = 2 powi ex * 2 ^ 53" by (simp add: power_int_add)
    finally have "x / 2 powi ex < 2 ^ 53" using pex by (simp add: field_simps)
    then have "x / 2 powi ex \<le> of_int (2 ^ 53)" by simp
    then have "roundTiesToEven (x / 2 powi ex) \<le> roundTiesToEven (of_int (2 ^ 53))"
      by (rule roundTiesToEven_mono)
    then have "roundTiesToEven (x / 2 powi ex) \<le> 2 ^ 53" by (simp only: roundTiesToEven_of_int)
    then have "(of_int (roundTiesToEven (x / 2 powi ex)) :: rat) \<le> of_int (2 ^ 53)"
      by (simp only: of_int_le_iff)
    then have "of_int (roundTiesToEven (x / 2 powi ex)) * 2 powi ex \<le> of_int (2 ^ 53) * (2::rat) powi ex"
      using pex by (intro mult_right_mono) simp_all
    also have "of_int (2 ^ 53) * (2::rat) powi ex = 2 powi (ex + 53)"
      by (simp add: power_int_add)
    also have "\<dots> \<le> 2 powi (ey + 52)" using lt by (intro power_int_increasing) simp_all
    finally have ux: "double x \<le> 2 powi (ey + 52)" by (simp only: dx)
    \<comment> \<open>the double of \<open>y\<close> is at least \<open>2 powi (ey + 52)\<close>\<close>
    have "(2::rat) powi ey * 2 ^ 52 = 2 powi (ey + 52)" by (simp add: power_int_add)
    also have "\<dots> = 2 powi ilog2 y" by (simp add: eyn)
    also have "\<dots> \<le> y" using py by (rule ilog2_bounds)
    finally have "of_int (2 ^ 52) \<le> y / 2 powi ey" using pey by (simp add: field_simps)
    then have "roundTiesToEven (of_int (2 ^ 52)) \<le> roundTiesToEven (y / 2 powi ey)"
      by (rule roundTiesToEven_mono)
    then have "2 ^ 52 \<le> roundTiesToEven (y / 2 powi ey)" by (simp only: roundTiesToEven_of_int)
    then have "(of_int (2 ^ 52) :: rat) \<le> of_int (roundTiesToEven (y / 2 powi ey))"
      by (simp only: of_int_le_iff)
    then have "of_int (2 ^ 52) * (2::rat) powi ey \<le> of_int (roundTiesToEven (y / 2 powi ey)) * 2 powi ey"
      using pey by (intro mult_right_mono) simp_all
    moreover have "of_int (2 ^ 52) * (2::rat) powi ey = 2 powi (ey + 52)"
      by (simp add: power_int_add)
    ultimately have "2 powi (ey + 52) \<le> double y" by (simp only: dy)
    with ux show ?thesis by simp
  qed
qed

lemma double_mono:
  assumes "x \<le> y"
  shows "double x \<le> double y"
proof -
  consider (pos) "0 < x" | (neg) "y < 0" | (mid) "x \<le> 0" "0 \<le> y" by linarith
  then show ?thesis
  proof cases
    case pos
    then show ?thesis using assms by (rule double_mono_pos)
  next
    case neg
    then have "0 < - y" and "- y \<le> - x" using assms by simp_all
    then have "double (- y) \<le> double (- x)" by (rule double_mono_pos)
    then show ?thesis by (simp add: double_minus)
  next
    case mid
    have "0 \<le> double (- x)" using mid(1) by (intro double_nonneg) simp
    then have "double x \<le> 0" by (simp add: double_minus)
    also have "0 \<le> double y" using mid(2) by (rule double_nonneg)
    finally show ?thesis .
  qed
qed

lemma fadd_mono: "a \<le> b \<Longrightarrow> fadd a c \<le> fadd b c"
  by (simp add: fadd_def double_mono)

lemma fdiv_mono: "a \<le> b \<Longrightarrow> 0 < double c \<Longrightarrow> fdiv a c \<le> fdiv b c"
  by (simp add: fdiv_def double_mono divide_right_mono)

lemma fmul_mono: "a \<le> b \<Longrightarrow> 0 \<le> double c \<Longrightarrow> fmul a c \<le> fmul b c"
  by (simp add: fmul_def double_mono mult_right_mono)




text \<open>The integers of the program's constants are doubles.\<close>

lemma double_constants:
  "double 100 = 100"
  "double 3600000 = 3600000"
  "double (1000 * 60 * 60) = 3600000"
  "double 86400000 = 86400000"
  "double (1000 * 60 * 60 * 24) = 86400000"
  by code_simp+

subsection \<open>ProjectPathNormalizer\<close>

lemma split_on_not_Nil [simp]: "split_on c s \<noteq> []"
  by (induction s) (auto split: list.splits)

lemma split_on_append_free:
  "c \<notin> set s \<Longrightarrow> split_on c (s @ t) = (case split_on c t of [] \<Rightarrow> [s] | l # ls \<Rightarrow> (s @ l) # ls)"
  by (induction s) (auto split: list.splits)

lemma split_on_encode_path:
  "\<forall>s\<in>set segs. CHR ''-'' \<notin> set s \<Longrightarrow>
   split_on CHR ''-'' (encode_path segs) = [] # segs"
proof (induction segs)
  case Nil
  then show ?case by (simp add: encode_path_def)
next
  case (Cons s segs)
  then have ih: "split_on CHR ''-'' (encode_path segs) = [] # segs" by simp
  have "encode_path (s # segs) = CHR ''-'' # (s @ encode_path segs)"
    by (simp add: encode_path_def)
  moreover have "split_on CHR ''-'' (s @ encode_path segs) = s # segs"
    using Cons.prems ih by (simp add: split_on_append_free)
  ultimately show ?case by simp
qed

lemma name_parts_encode_path:
  "list_all segment segs \<Longrightarrow> name_parts (encode_path segs) = segs"
proof -
  assume a: "list_all segment segs"
  then have "\<forall>s\<in>set segs. CHR ''-'' \<notin> set s" by (simp add: list_all_iff segment_def)
  then have "split_on CHR ''-'' (encode_path segs) = [] # segs" by (rule split_on_encode_path)
  moreover have "filter (\<lambda>p. p \<noteq> []) segs = segs"
    using a by (simp add: list_all_iff segment_def filter_id_conv)
  ultimately show ?thesis by (simp add: name_parts_def)
qed

lemma join_with_Nil_iff:
  "list_all segment ps \<Longrightarrow> join_with sep ps = [] \<longleftrightarrow> ps = []"
  by (induction sep ps rule: join_with.induct) (auto simp: segment_def)

lemma cleanProjectName_parts:
  "cleanProjectName d =
     (if startsWith d ''-tmp'' then ''/tmp''
      else if first_is (name_parts d) ''home'' \<and> 2 \<le> length (name_parts d) then
        (let rest = drop 2 (name_parts d) in
         if rest = [] then ''~''
         else let label = join_with ''-'' (if first_is rest ''projects'' then tl rest else rest)
              in if label = [] then ''~'' else label)
      else d)"
  by (simp add: cleanProjectName_def name_parts_def Let_def)

lemma not_tmp_encode_home: "\<not> startsWith (encode_path (''home'' # segs)) ''-tmp''"
  by (simp add: startsWith_def encode_path_def)

text \<open>
  Claim C6, as the code has it. \<open>cleanProjectName\<close> is a total function, and it returns:
  the temp sentinel \<open>/tmp\<close> for every name that starts with \<open>-tmp\<close>; for the encoding of
  \<open>home/<user>/projects/<rest>\<close> with a non-empty \<open><rest>\<close> the label \<open><rest>\<close>;
  for the encoding of \<open>home/<user>\<close> alone the home-root sentinel \<open>~\<close>; for the encoding of
  \<open>home/<user>/<rest>\<close> outside \<open>projects\<close> the label \<open><rest>\<close> as well; and the input
  unchanged for every name that is no temp encoding and whose segments do not begin with
  \<open>home\<close> followed by a second segment.
\<close>

theorem cleanProjectName_shapes:
  "(startsWith d ''-tmp'' \<longrightarrow> cleanProjectName d = ''/tmp'') \<and>
   (segment user \<and> list_all segment rest \<and> rest \<noteq> [] \<longrightarrow>
      cleanProjectName (encode_path (''home'' # user # ''projects'' # rest)) = join_with ''-'' rest) \<and>
   (segment user \<longrightarrow> cleanProjectName (encode_path [''home'', user]) = ''~'') \<and>
   (segment user \<and> list_all segment rest \<and> rest \<noteq> [] \<and> \<not> first_is rest ''projects'' \<longrightarrow>
      cleanProjectName (encode_path (''home'' # user # rest)) = join_with ''-'' rest) \<and>
   (\<not> startsWith d ''-tmp'' \<and> \<not> (first_is (name_parts d) ''home'' \<and> 2 \<le> length (name_parts d)) \<longrightarrow>
      cleanProjectName d = d)"
proof (intro conjI impI)
  assume "startsWith d ''-tmp''"
  then show "cleanProjectName d = ''/tmp''" by (simp add: cleanProjectName_parts)
next
  assume a: "segment user \<and> list_all segment rest \<and> rest \<noteq> []"
  then have "list_all segment (''home'' # user # ''projects'' # rest)"
    by (simp add: segment_def)
  then have "name_parts (encode_path (''home'' # user # ''projects'' # rest)) = ''home'' # user # ''projects'' # rest"
    by (rule name_parts_encode_path)
  moreover have "join_with ''-'' rest \<noteq> []" using a by (simp add: join_with_Nil_iff)
  ultimately show "cleanProjectName (encode_path (''home'' # user # ''projects'' # rest)) = join_with ''-'' rest"
    using a by (simp add: cleanProjectName_parts not_tmp_encode_home first_is_def)
next
  assume a: "segment user"
  then have "list_all segment [''home'', user]" by (simp add: segment_def)
  then have "name_parts (encode_path [''home'', user]) = [''home'', user]"
    by (rule name_parts_encode_path)
  then show "cleanProjectName (encode_path [''home'', user]) = ''~''"
    by (simp add: cleanProjectName_parts not_tmp_encode_home first_is_def)
next
  assume a: "segment user \<and> list_all segment rest \<and> rest \<noteq> [] \<and> \<not> first_is rest ''projects''"
  then have "list_all segment (''home'' # user # rest)" by (simp add: segment_def)
  then have "name_parts (encode_path (''home'' # user # rest)) = ''home'' # user # rest"
    by (rule name_parts_encode_path)
  moreover have "join_with ''-'' rest \<noteq> []" using a by (simp add: join_with_Nil_iff)
  ultimately show "cleanProjectName (encode_path (''home'' # user # rest)) = join_with ''-'' rest"
    using a by (simp add: cleanProjectName_parts not_tmp_encode_home first_is_def)
next
  assume "\<not> startsWith d ''-tmp'' \<and> \<not> (first_is (name_parts d) ''home'' \<and> 2 \<le> length (name_parts d))"
  then show "cleanProjectName d = d" by (auto simp add: cleanProjectName_parts)
qed

text \<open>
  Claim C6 as it is written sends every shape other than the three it lists to the input
  itself. The name \<open>-home-alice-foo\<close> is none of the three, and its label is \<open>foo\<close>.
\<close>

theorem cleanProjectName_other_shape_counterexample:
  "\<not> startsWith ''-home-alice-foo'' ''-tmp'' \<and>
   name_parts ''-home-alice-foo'' = [''home'', ''alice'', ''foo''] \<and>
   cleanProjectName ''-home-alice-foo'' = ''foo'' \<and>
   cleanProjectName ''-home-alice-foo'' \<noteq> ''-home-alice-foo''"
  by code_simp

theorem cleanProjectName_shapes_witness:
  "cleanProjectName ''-tmp-build'' = ''/tmp'' \<and>
   cleanProjectName ''-home-alice-projects-foo'' = ''foo'' \<and>
   cleanProjectName ''-home-alice'' = ''~'' \<and>
   cleanProjectName ''-home-alice-notes-2024'' = ''notes-2024'' \<and>
   cleanProjectName ''-srv-data'' = ''-srv-data''"
proof -
  have h1: "startsWith ''-tmp-build'' ''-tmp''" by code_simp
  have h2: "segment ''alice'' \<and> list_all segment [''foo''] \<and> [''foo''] \<noteq> []" by code_simp
  have h3: "segment ''alice''" by code_simp
  have h4: "segment ''alice'' \<and> list_all segment [''notes'', ''2024''] \<and> [''notes'', ''2024''] \<noteq> []
      \<and> \<not> first_is [''notes'', ''2024''] ''projects''" by code_simp
  have h5: "\<not> startsWith ''-srv-data'' ''-tmp'' \<and>
     \<not> (first_is (name_parts ''-srv-data'') ''home'' \<and> 2 \<le> length (name_parts ''-srv-data''))"
    by code_simp
  have e2: "encode_path [''home'', ''alice'', ''projects'', ''foo''] = ''-home-alice-projects-foo''"
    by code_simp
  have e3: "encode_path [''home'', ''alice''] = ''-home-alice''" by code_simp
  have e4: "encode_path [''home'', ''alice'', ''notes'', ''2024''] = ''-home-alice-notes-2024''"
    by code_simp
  have j4: "join_with ''-'' [''notes'', ''2024''] = ''notes-2024''" by code_simp
  from cleanProjectName_shapes [of "''-tmp-build''" "''alice''" "[''foo'']"] h1 h2
  have r12: "cleanProjectName ''-tmp-build'' = ''/tmp'' \<and>
             cleanProjectName ''-home-alice-projects-foo'' = ''foo''"
    by (simp add: e2)
  from cleanProjectName_shapes [of "''-srv-data''" "''alice''" "[''notes'', ''2024'']"] h3 h4 h5
  have r345: "cleanProjectName ''-home-alice'' = ''~'' \<and>
              cleanProjectName ''-home-alice-notes-2024'' = ''notes-2024'' \<and>
              cleanProjectName ''-srv-data'' = ''-srv-data''"
    by (simp add: e3 e4 j4)
  from r12 r345 show ?thesis by simp
qed

subsection \<open>EdgeLineReader\<close>

lemma readFirstLastLine_unfold:
  "readFirstLastLine content =
     (if content = [] then None
      else if length content < 2 then
        Some (takeWhile (\<lambda>c. c \<noteq> newline) (take 8192 content),
              takeWhile (\<lambda>c. c \<noteq> newline) (take 8192 content))
      else
        Some (takeWhile (\<lambda>c. c \<noteq> newline) (take 8192 content),
              (case filter (\<lambda>l. trim l \<noteq> [])
                      (split_on newline (drop (length content - min 65536 (length content)) content)) of
                 [] \<Rightarrow> takeWhile (\<lambda>c. c \<noteq> newline) (take 8192 content)
               | l # ls \<Rightarrow>
                   if last (l # ls) = [] then takeWhile (\<lambda>c. c \<noteq> newline) (take 8192 content)
                   else last (l # ls))))"
  by (auto simp add: readFirstLastLine_def Let_def split: list.splits)

text \<open>
  Claim C10. For a file that is not empty, of at least 2 bytes, whose suffix of up to
  64 KiB splits at the line terminators into fragments that are all empty or white
  space, \<open>readFirstLastLine\<close> returns a result, and its last line is its first line:
  the text before the first line terminator of the first 8 KiB.
\<close>

theorem readFirstLastLine_blank_tail:
  assumes "content \<noteq> []" and "2 \<le> length content"
    and "\<forall>l \<in> set (split_on newline (drop (length content - min 65536 (length content)) content)).
           trim l = []"
  shows "readFirstLastLine content =
           Some (takeWhile (\<lambda>c. c \<noteq> newline) (take 8192 content),
                 takeWhile (\<lambda>c. c \<noteq> newline) (take 8192 content))"
proof -
  have "filter (\<lambda>l. trim l \<noteq> [])
          (split_on newline (drop (length content - min 65536 (length content)) content)) = []"
    using assms(3) by (simp add: filter_empty_conv)
  then show ?thesis
    using assms(1,2) by (simp add: readFirstLastLine_unfold)
qed

lemma split_on_replicate: "set (split_on c (replicate n c)) = {[]}"
  by (induction n) auto

text \<open>
  A file of 70008 bytes: one JSON line and 70000 line terminators. Its last 64 KiB hold
  no line, and the last line is the first.
\<close>

theorem readFirstLastLine_blank_tail_witness:
  "readFirstLastLine (''{\"ts\":1}'' @ replicate 70000 newline) = Some (''{\"ts\":1}'', ''{\"ts\":1}'')"
proof -
  let ?c = "''{\"ts\":1}'' @ replicate 70000 newline"
  have tail: "drop (length ?c - min 65536 (length ?c)) ?c = replicate 65536 newline"
    by simp
  have h1: "?c \<noteq> []" by simp
  have h2: "2 \<le> length ?c" by simp
  have h3: "\<forall>l \<in> set (split_on newline (drop (length ?c - min 65536 (length ?c)) ?c)). trim l = []"
    unfolding tail by (simp add: split_on_replicate trim_def trimEnd_def)
  have first: "takeWhile (\<lambda>c. c \<noteq> newline) (take 8192 ?c) = ''{\"ts\":1}''"
    by (simp add: newline_def)
  from readFirstLastLine_blank_tail [OF h1 h2 h3] first show ?thesis by simp
qed

subsection \<open>TimestampExtractor\<close>

lemma parseTimestamp_try_object:
  "JSON_parse P line = Some (JObj kvs) \<Longrightarrow>
   parseTimestamp_try P line =
     (case selected kvs of
        None \<Rightarrow> Inr None
      | Some v \<Rightarrow>
          if truthy (Some v) then
            (case new_Date P v of Inl e \<Rightarrow> Inl e | Inr d \<Rightarrow> Inr (Some d))
          else Inr None)"
  by (auto simp add: parseTimestamp_try_def selected_def split: option.splits)

text \<open>
  Claim C2, as the code has it. For every line \<open>parseTimestamp\<close> returns the absent
  result when the line is not valid JSON, when the parsed object has neither the key
  \<open>timestamp\<close> nor the key \<open>ts\<close>, and whenever anything in its \<open>try\<close> block raises: it
  never raises itself. When the selected value is a non-empty string, the result is
  present and is the date that \<open>Date.parse\<close> gives for the string; for a string that
  fails to parse this is the invalid date, whose time value is \<open>NaN\<close>, not the absent
  result.
\<close>

theorem parseTimestamp_results:
  "(JSON_parse P line = None \<longrightarrow> parseTimestamp P line = None) \<and>
   (JSON_parse P line = Some (JObj kvs) \<and> map_of kvs ''timestamp'' = None \<and>
      map_of kvs ''ts'' = None \<longrightarrow> parseTimestamp P line = None) \<and>
   (parseTimestamp_try P line = Inl e \<longrightarrow> parseTimestamp P line = None) \<and>
   (JSON_parse P line = Some (JObj kvs) \<and> selected kvs = Some (JStr s) \<and> s \<noteq> [] \<longrightarrow>
      parseTimestamp P line = Some (Date (Date_parse P s))) \<and>
   (JSON_parse P line = Some (JObj kvs) \<and> selected kvs = Some (JStr s) \<and> s \<noteq> [] \<and>
      Date_parse P s = None \<longrightarrow> parseTimestamp P line = Some (Date None))"
proof (intro conjI impI)
  assume "JSON_parse P line = None"
  then show "parseTimestamp P line = None"
    by (simp add: parseTimestamp_def parseTimestamp_try_def)
next
  assume "JSON_parse P line = Some (JObj kvs) \<and> map_of kvs ''timestamp'' = None \<and>
      map_of kvs ''ts'' = None"
  then show "parseTimestamp P line = None"
    by (simp add: parseTimestamp_def parseTimestamp_try_object selected_def)
next
  assume "parseTimestamp_try P line = Inl e"
  then show "parseTimestamp P line = None"
    by (simp add: parseTimestamp_def)
next
  assume "JSON_parse P line = Some (JObj kvs) \<and> selected kvs = Some (JStr s) \<and> s \<noteq> []"
  then show "parseTimestamp P line = Some (Date (Date_parse P s))"
    by (simp add: parseTimestamp_def parseTimestamp_try_object)
next
  assume "JSON_parse P line = Some (JObj kvs) \<and> selected kvs = Some (JStr s) \<and> s \<noteq> [] \<and>
      Date_parse P s = None"
  then show "parseTimestamp P line = Some (Date None)"
    by (simp add: parseTimestamp_def parseTimestamp_try_object)
qed

text \<open>
  Claim C2 as it is written promises the absent result when the value of the key fails
  to parse as a date, and a valid point in time whenever the result is present. On the
  line \<^verbatim>\<open>{"timestamp":"garbage"}\<close> the result is present and is the invalid date.
\<close>

theorem parseTimestamp_invalid_date_counterexample:
  "JSON_parse utc ''{\"timestamp\":\"garbage\"}'' = Some (JObj [(''timestamp'', JStr ''garbage'')]) \<and>
   Date_parse utc ''garbage'' = None \<and>
   parseTimestamp utc ''{\"timestamp\":\"garbage\"}'' = Some (Date None) \<and>
   parseTimestamp utc ''{\"timestamp\":\"garbage\"}'' \<noteq> None"
  by code_simp

theorem parseTimestamp_results_witness:
  "parseTimestamp utc ''not json'' = None \<and>
   parseTimestamp utc ''{\"type\":\"user\"}'' = None \<and>
   parseTimestamp utc ''null'' = None \<and>
   parseTimestamp utc ''{\"ts\":\"2024-01-01T09:00:00.000Z\"}'' = Some (Date (Some 1704099600000)) \<and>
   parseTimestamp utc ''{\"timestamp\":\"garbage\"}'' = Some (Date None)"
proof -
  have h1: "JSON_parse utc ''not json'' = None" by code_simp
  have h2: "JSON_parse utc ''{\"type\":\"user\"}'' = Some (JObj [(''type'', JStr ''user'')]) \<and>
            map_of [(''type'', JStr ''user'')] ''timestamp'' = None \<and>
            map_of [(''type'', JStr ''user'')] ''ts'' = None" by code_simp
  have h3: "parseTimestamp_try utc ''null'' = Inl TypeError" by code_simp
  have h4: "JSON_parse utc ''{\"ts\":\"2024-01-01T09:00:00.000Z\"}'' =
              Some (JObj [(''ts'', JStr ''2024-01-01T09:00:00.000Z'')]) \<and>
            selected [(''ts'', JStr ''2024-01-01T09:00:00.000Z'')] = Some (JStr ''2024-01-01T09:00:00.000Z'') \<and>
            ''2024-01-01T09:00:00.000Z'' \<noteq> []" by code_simp
  have d4: "Date_parse utc ''2024-01-01T09:00:00.000Z'' = Some 1704099600000" by code_simp
  have h5: "JSON_parse utc ''{\"timestamp\":\"garbage\"}'' = Some (JObj [(''timestamp'', JStr ''garbage'')]) \<and>
            selected [(''timestamp'', JStr ''garbage'')] = Some (JStr ''garbage'') \<and> ''garbage'' \<noteq> [] \<and>
            Date_parse utc ''garbage'' = None" by code_simp
  from parseTimestamp_results [of utc "''not json''"] h1
  have r1: "parseTimestamp utc ''not json'' = None" by blast
  from parseTimestamp_results [of utc "''{\"type\":\"user\"}''" "[(''type'', JStr ''user'')]"] h2
  have r2: "parseTimestamp utc ''{\"type\":\"user\"}'' = None" by blast
  from parseTimestamp_results [of utc "''null''" _ TypeError] h3
  have r3: "parseTimestamp utc ''null'' = None" by blast
  from parseTimestamp_results [of utc "''{\"ts\":\"2024-01-01T09:00:00.000Z\"}''"
      "[(''ts'', JStr ''2024-01-01T09:00:00.000Z'')]" _ "''2024-01-01T09:00:00.000Z''"] h4 d4
  have r4: "parseTimestamp utc ''{\"ts\":\"2024-01-01T09:00:00.000Z\"}'' = Some (Date (Some 1704099600000))"
    by simp
  from parseTimestamp_results [of utc "''{\"timestamp\":\"garbage\"}''"
      "[(''timestamp'', JStr ''garbage'')]" _ "''garbage''"] h5
  have r5: "parseTimestamp utc ''{\"timestamp\":\"garbage\"}'' = Some (Date None)" by blast
  from r1 r2 r3 r4 r5 show ?thesis by simp
qed

text \<open>
  For evaluation: the two bounds are compared as integers, and a file within the first
  bound is not cut.
\<close>

lemma readFirstLastLine_code [code]:
  "readFirstLastLine content =
     (if int (length content) \<le> 8192 then edge_lines content content (length content)
      else edge_lines (take 8192 content)
             (drop (length content - min 65536 (length content)) content) (length content))"
  by (auto simp add: readFirstLastLine_def edge_lines_def Let_def min_def split: list.splits)

subsection \<open>SessionScanner\<close>

lemma foldl_invariant:
  "I a \<Longrightarrow> (\<And>b x. I b \<Longrightarrow> I (f b x)) \<Longrightarrow> I (foldl f a xs)"
  by (induction xs arbitrary: a) auto

lemma set_insert_by [simp]: "set (insert_by lt x ys) = insert x (set ys)"
  by (induction ys) auto

lemma set_sort_by [simp]: "set (sort_by lt xs) = set xs"
proof -
  have "set (foldl (\<lambda>acc x. insert_by lt x acc) acc xs) = set acc \<union> set xs" for acc
    by (induction xs arbitrary: acc) auto
  then show ?thesis by (simp add: sort_by_def)
qed

lemma sorted_insert_by_key:
  fixes key :: "'a \<Rightarrow> 'k::linorder"
  shows "sorted (map key ys) \<Longrightarrow> sorted (map key (insert_by (\<lambda>a b. key a < key b) x ys))"
  by (induction ys) auto

lemma sorted_sort_by_key:
  fixes key :: "'a \<Rightarrow> 'k::linorder"
  shows "sorted (map key (sort_by (\<lambda>a b. key a < key b) xs))"
proof -
  have "sorted (map key acc) \<Longrightarrow>
        sorted (map key (foldl (\<lambda>acc x. insert_by (\<lambda>a b. key a < key b) x acc) acc xs))" for acc
    by (induction xs arbitrary: acc) (auto simp: sorted_insert_by_key)
  then show ?thesis by (simp add: sort_by_def)
qed

text \<open>What \<open>addSession\<close> does with a file: nothing, or one session at the end.\<close>

lemma addSession_file:
  "addSession P (Some (File readable content)) proj sessions =
     (if length content < 50 \<or> \<not> readable then sessions
      else
        (case readFirstLastLine content of
           None \<Rightarrow> sessions
         | Some (firstLine, lastLine) \<Rightarrow>
             (case (parseTimestamp P firstLine, parseTimestamp P lastLine) of
                (Some (Date (Some b)), Some (Date (Some e))) \<Rightarrow>
                  if 0 \<le> e - b \<and> e - b < 604800000 then
                    sessions @
                      [\<lparr>project = proj, start = b, endTime = e,
                        durationHours = fdiv (of_int (e - b)) 3600000,
                        sizeBytes = length content\<rparr>]
                  else sessions
              | _ \<Rightarrow> sessions)))"
  by (auto simp add: addSession_def Let_def split: option.splits jsdate.splits prod.splits)

text \<open>
  The hours of a span below seven days are below 168: the quotient of the longest such
  span, 604 799 999 ms, rounds to a double below 168, and rounding keeps the order.
\<close>

lemma longest_span: "fdiv 604799999 3600000 < 168"
  by code_simp

lemma durationHours_bounds:
  assumes "0 \<le> n" and "n < 604800000"
  shows "0 \<le> fdiv (of_int n) 3600000" and "fdiv (of_int n) 3600000 < 168"
proof -
  have "(0::rat) \<le> of_int n" using assms(1) by simp
  then have "0 \<le> double (of_int n)" by (rule double_nonneg)
  then have "0 \<le> double (of_int n) / double 3600000" by (simp add: double_constants)
  then show "0 \<le> fdiv (of_int n) 3600000" unfolding fdiv_def by (rule double_nonneg)
  from assms(2) have "n \<le> 604799999" by simp
  then have "(of_int n :: rat) \<le> of_int 604799999" by (simp only: of_int_le_iff)
  then have "(of_int n :: rat) \<le> 604799999" by simp
  then have "fdiv (of_int n) 3600000 \<le> fdiv 604799999 3600000"
    by (rule fdiv_mono) (simp add: double_constants)
  with longest_span show "fdiv (of_int n) 3600000 < 168" by simp
qed

lemma addSession_valid:
  assumes "list_all valid_session sessions"
  shows "list_all valid_session (addSession P filePath proj sessions)"
proof (cases filePath)
  case None
  then show ?thesis using assms by (simp add: addSession_def)
next
  case (Some n)
  show ?thesis
  proof (cases n)
    case (Dir l entries)
    then show ?thesis using assms Some by (simp add: addSession_def)
  next
    case (File readable content)
    have "0 \<le> e - b \<Longrightarrow> e - b < 604800000 \<Longrightarrow>
          0 \<le> fdiv (of_int (e - b)) 3600000 \<and> fdiv (of_int (e - b)) 3600000 < 168" for e b :: int
      using durationHours_bounds [of "e - b"] by simp
    then show ?thesis
      using assms Some File
      by (auto simp add: addSession_file valid_session_def split: option.splits jsdate.splits)
  qed
qed

lemma scanFiles_valid:
  "list_all valid_session sessions \<Longrightarrow> list_all valid_session (scanFiles P dir projDir files sessions)"
  unfolding scanFiles_def
  by (rule foldl_invariant [where I = "list_all valid_session"])
     (simp_all add: scanFile_def addSession_valid)

lemma scanSubagents_valid:
  "list_all valid_session sessions \<Longrightarrow>
   list_all valid_session (scanSubagents P projPath projDir files sessions)"
  unfolding scanSubagents_def
  by (rule foldl_invariant [where I = "list_all valid_session"])
     (simp_all add: scanSubagent_def scanFiles_valid Let_def split: option.splits)

lemma scanProject_valid:
  "list_all valid_session sessions \<Longrightarrow>
   list_all valid_session (scanProject P projectsDir sessions projDir)"
  by (simp add: scanProject_def Let_def scanFiles_valid scanSubagents_valid split: option.splits)

lemma scanSessions_all_valid: "list_all valid_session (scanSessions P claudeDir)"
proof -
  have "list_all valid_session (foldl (scanProject P d) [] dirs)" for d dirs
    by (rule foldl_invariant [where I = "list_all valid_session"]) (simp_all add: scanProject_valid)
  then show ?thesis
    by (auto simp add: scanSessions_def Let_def list_all_iff split: option.splits)
qed

text \<open>
  Claim C1. Every session in the output of \<open>scanSessions\<close> has a duration of at least
  0 and below 168 hours and comes from a file of at least 50 bytes. A file below 50
  bytes adds no session, and neither does a file whose derived end precedes its start
  or lies 168 hours (604 800 000 ms) or more after it.
\<close>

theorem scanSessions_valid:
  "(\<forall>s \<in> set (scanSessions P claudeDir).
      0 \<le> durationHours s \<and> durationHours s < 168 \<and> 50 \<le> sizeBytes s) \<and>
   (length content < 50 \<longrightarrow>
      addSession P (Some (File readable content)) proj sessions = sessions) \<and>
   (readFirstLastLine content = Some (firstLine, lastLine) \<and>
    parseTimestamp P firstLine = Some (Date (Some b)) \<and>
    parseTimestamp P lastLine = Some (Date (Some e)) \<and>
    (e < b \<or> 168 * 3600000 \<le> e - b) \<longrightarrow>
      addSession P (Some (File readable content)) proj sessions = sessions)"
proof (intro conjI)
  show "\<forall>s \<in> set (scanSessions P claudeDir).
      0 \<le> durationHours s \<and> durationHours s < 168 \<and> 50 \<le> sizeBytes s"
    using scanSessions_all_valid [of P claudeDir]
    by (simp add: list_all_iff valid_session_def)
next
  show "length content < 50 \<longrightarrow>
      addSession P (Some (File readable content)) proj sessions = sessions"
    by (simp add: addSession_file)
next
  show "readFirstLastLine content = Some (firstLine, lastLine) \<and>
    parseTimestamp P firstLine = Some (Date (Some b)) \<and>
    parseTimestamp P lastLine = Some (Date (Some e)) \<and>
    (e < b \<or> 168 * 3600000 \<le> e - b) \<longrightarrow>
      addSession P (Some (File readable content)) proj sessions = sessions"
    by (auto simp add: addSession_file)
qed

text \<open>
  Claim C7. For every transcript store, whatever the order in which its directories
  list their entries, the list that \<open>scanSessions\<close> returns is sorted ascending by
  \<open>start\<close>.
\<close>

theorem scanSessions_sorted: "sorted (map start (scanSessions P claudeDir))"
proof -
  have "(\<lambda>a b :: session. start a - start b < 0) = (\<lambda>a b. start a < start b)"
    by (intro ext) simp
  then show ?thesis
    by (simp add: scanSessions_def Let_def sorted_sort_by_key split: option.splits)
qed

text \<open>The sessions of the example store: three, in the order of their starts.\<close>

lemma example_sessions:
  "scanSessions utc example_store =
     [\<lparr>project = ''foo'', start = 1704099600000, endTime = 1704105000000,
        durationHours = 3 / 2, sizeBytes = 110\<rparr>,
      \<lparr>project = ''foo'', start = 1704099600000, endTime = 1704099900000,
        durationHours = double (1 / 12), sizeBytes = 110\<rparr>,
      \<lparr>project = ''foo'', start = 1704117600000, endTime = 1704117600000,
        durationHours = 0, sizeBytes = 110\<rparr>]"
  by code_simp

theorem scanSessions_valid_witness:
  "length (scanSessions utc example_store) = 3 \<and>
   list_all (\<lambda>s. 0 \<le> durationHours s \<and> durationHours s < 168 \<and> 50 \<le> sizeBytes s)
     (scanSessions utc example_store) \<and>
   addSession utc (Some (File True ''{\"ts\":1}'')) ''foo'' [] = [] \<and>
   addSession utc
     (Some (File True (transcript ''2024-01-02T10:00:00.000Z'' ''2024-01-02T09:00:00.000Z''))) ''foo'' [] = [] \<and>
   addSession utc
     (Some (File True (transcript ''2024-01-01T00:00:00.000Z'' ''2024-01-09T00:00:00.000Z''))) ''foo'' [] = []"
proof -
  have h2: "length ''{\"ts\":1}'' < 50" by simp
  have h3: "readFirstLastLine (transcript ''2024-01-02T10:00:00.000Z'' ''2024-01-02T09:00:00.000Z'') =
              Some (transcript_line ''2024-01-02T10:00:00.000Z'', transcript_line ''2024-01-02T09:00:00.000Z'') \<and>
            parseTimestamp utc (transcript_line ''2024-01-02T10:00:00.000Z'') = Some (Date (Some 1704189600000)) \<and>
            parseTimestamp utc (transcript_line ''2024-01-02T09:00:00.000Z'') = Some (Date (Some 1704186000000)) \<and>
            ((1704186000000::int) < 1704189600000 \<or> 168 * 3600000 \<le> (1704186000000::int) - 1704189600000)"
    by code_simp
  have h4: "readFirstLastLine (transcript ''2024-01-01T00:00:00.000Z'' ''2024-01-09T00:00:00.000Z'') =
              Some (transcript_line ''2024-01-01T00:00:00.000Z'', transcript_line ''2024-01-09T00:00:00.000Z'') \<and>
            parseTimestamp utc (transcript_line ''2024-01-01T00:00:00.000Z'') = Some (Date (Some 1704067200000)) \<and>
            parseTimestamp utc (transcript_line ''2024-01-09T00:00:00.000Z'') = Some (Date (Some 1704758400000)) \<and>
            ((1704758400000::int) < 1704067200000 \<or> 168 * 3600000 \<le> (1704758400000::int) - 1704067200000)"
    by code_simp
  from scanSessions_valid [of utc example_store "''{\"ts\":1}''" True "''foo''" "[]"] h2
  have r1: "(\<forall>s \<in> set (scanSessions utc example_store).
               0 \<le> durationHours s \<and> durationHours s < 168 \<and> 50 \<le> sizeBytes s) \<and>
            addSession utc (Some (File True ''{\"ts\":1}'')) ''foo'' [] = []"
    by blast
  from scanSessions_valid [of utc example_store
      "transcript ''2024-01-02T10:00:00.000Z'' ''2024-01-02T09:00:00.000Z''" True "''foo''" "[]"
      "transcript_line ''2024-01-02T10:00:00.000Z''" "transcript_line ''2024-01-02T09:00:00.000Z''"
      1704189600000 1704186000000] h3
  have r2: "addSession utc
     (Some (File True (transcript ''2024-01-02T10:00:00.000Z'' ''2024-01-02T09:00:00.000Z''))) ''foo'' [] = []"
    by blast
  from scanSessions_valid [of utc example_store
      "transcript ''2024-01-01T00:00:00.000Z'' ''2024-01-09T00:00:00.000Z''" True "''foo''" "[]"
      "transcript_line ''2024-01-01T00:00:00.000Z''" "transcript_line ''2024-01-09T00:00:00.000Z''"
      1704067200000 1704758400000] h4
  have r3: "addSession utc
     (Some (File True (transcript ''2024-01-01T00:00:00.000Z'' ''2024-01-09T00:00:00.000Z''))) ''foo'' [] = []"
    by blast
  have r0: "length (scanSessions utc example_store) = 3" by (simp add: example_sessions)
  from r0 r1 r2 r3 show ?thesis by (simp add: list_all_iff)
qed

theorem scanSessions_sorted_witness:
  "map start (scanSessions utc example_store) = [1704099600000, 1704099600000, 1704117600000] \<and>
   sorted (map start (scanSessions utc example_store))"
proof -
  have "map start (scanSessions utc example_store) = [1704099600000, 1704099600000, 1704117600000]"
    by (simp add: example_sessions)
  with scanSessions_sorted [of utc example_store] show ?thesis by simp
qed

subsection \<open>StatsAnalyzer\<close>

lemma analyze_None_iff: "analyze P sessions = None \<longleftrightarrow> sessions = []"
  by (simp add: analyze_def Let_def)

lemma analyze_fields:
  assumes "analyze P sessions = Some stats"
  shows "totalSessions stats = length sessions"
    and "totalHours stats = sumHours sessions"
    and "avgDuration stats = fdiv (sumHours sessions) (of_nat (length sessions))"
    and "maxSession stats = maxSessionOf sessions"
    and "hasAutonomousSessions stats = hasAutonomous sessions"
    and "activeDays stats = activeDaysOf P sessions"
    and "maxStreak stats = maxStreakOf P (activeDaysOf P sessions)"
    and "avgDailyHours stats = fdiv (sumHours sessions) (of_nat (length (activeDaysOf P sessions)))"
    and "warnings stats =
           warningsOf sessions (maxStreakOf P (activeDaysOf P sessions))
             (fdiv (sumHours sessions) (of_nat (length sessions)))
             (fdiv (sumHours sessions) (of_nat (length (activeDaysOf P sessions))))"
    and "dowHours stats = dowHoursOf P sessions"
    and "projectHours stats = projectHoursOf sessions"
    and "recent7Hours stats = recent7HoursOf (byDateOf P sessions) (recent7Of P (activeDaysOf P sessions))"
  using assms by (auto simp add: analyze_def Let_def split: if_splits)

text \<open>The fold that selects the longest session: an element of the list that no element exceeds.\<close>

lemma foldl_longest:
  "foldl (\<lambda>mx s. if durationHours s > durationHours mx then s else mx) a xs \<in> insert a (set xs) \<and>
   (\<forall>s \<in> insert a (set xs).
      durationHours s \<le> durationHours (foldl (\<lambda>mx s. if durationHours s > durationHours mx then s else mx) a xs))"
proof (induction xs arbitrary: a)
  case Nil
  then show ?case by simp
next
  case (Cons x xs)
  let ?f = "\<lambda>mx s :: session. if durationHours s > durationHours mx then s else mx"
  show ?case
  proof (cases "durationHours x > durationHours a")
    case True
    with Cons.IH [of x] show ?thesis by (auto intro: order_trans less_imp_le)
  next
    case False
    with Cons.IH [of a] show ?thesis by (auto intro: order_trans)
  qed
qed

lemma maxSessionBase_not_Nil: "sessions \<noteq> [] \<Longrightarrow> maxSessionBase sessions \<noteq> []"
  by (simp add: maxSessionBase_def)

lemma maxSessionOf_longest:
  assumes "sessions \<noteq> []"
  shows "maxSessionOf sessions \<in> set (maxSessionBase sessions)"
    and "\<forall>s \<in> set (maxSessionBase sessions). durationHours s \<le> durationHours (maxSessionOf sessions)"
proof -
  let ?b = "maxSessionBase sessions"
  have ne: "?b \<noteq> []" using assms by (rule maxSessionBase_not_Nil)
  then have "insert (hd ?b) (set ?b) = set ?b" by (simp add: insert_absorb)
  with foldl_longest [of "hd ?b" ?b]
  show "maxSessionOf sessions \<in> set ?b"
    and "\<forall>s \<in> set ?b. durationHours s \<le> durationHours (maxSessionOf sessions)"
    by (simp_all add: maxSessionOf_def)
qed

text \<open>
  The selection rule of \<open>maxSession\<close> (the first two parts of claim C3): among the
  sessions of at most 8 hours, when there is one, the longest; otherwise the longest of
  all.
\<close>

lemma maxSession_selection:
  assumes "analyze P sessions = Some stats"
  shows "maxSession stats \<in> set sessions"
    and "(\<exists>s \<in> set sessions. durationHours s \<le> 8) \<Longrightarrow>
           durationHours (maxSession stats) \<le> 8 \<and>
           (\<forall>s \<in> set sessions. durationHours s \<le> 8 \<longrightarrow> durationHours s \<le> durationHours (maxSession stats))"
    and "(\<forall>s \<in> set sessions. durationHours s > 8) \<Longrightarrow>
           (\<forall>s \<in> set sessions. durationHours s \<le> durationHours (maxSession stats))"
proof -
  have ne: "sessions \<noteq> []" using assms analyze_None_iff [of P sessions] by auto
  have ms: "maxSession stats = maxSessionOf sessions" using assms by (rule analyze_fields)
  have sub: "set (maxSessionBase sessions) \<subseteq> set sessions"
    by (auto simp add: maxSessionBase_def interactiveSessions_def)
  from maxSessionOf_longest(1) [OF ne] sub ms show "maxSession stats \<in> set sessions" by auto
  {
    assume ex: "\<exists>s \<in> set sessions. durationHours s \<le> 8"
    then have "interactiveSessions sessions \<noteq> []"
      by (auto simp add: interactiveSessions_def MAX_INTERACTIVE_SESSION_HOURS_def filter_empty_conv)
    then have base: "set (maxSessionBase sessions) = {s \<in> set sessions. durationHours s \<le> 8}"
      by (auto simp add: maxSessionBase_def interactiveSessions_def MAX_INTERACTIVE_SESSION_HOURS_def)
    from maxSessionOf_longest [OF ne] base ms
    show "durationHours (maxSession stats) \<le> 8 \<and>
           (\<forall>s \<in> set sessions. durationHours s \<le> 8 \<longrightarrow> durationHours s \<le> durationHours (maxSession stats))"
      by auto
  }
  {
    assume all: "\<forall>s \<in> set sessions. durationHours s > 8"
    then have "interactiveSessions sessions = []"
      by (auto simp add: interactiveSessions_def MAX_INTERACTIVE_SESSION_HOURS_def filter_empty_conv)
    then have base: "maxSessionBase sessions = sessions" by (simp add: maxSessionBase_def)
    from maxSessionOf_longest(2) [OF ne] base ms
    show "\<forall>s \<in> set sessions. durationHours s \<le> durationHours (maxSession stats)" by simp
  }
qed

lemma hasAutonomous_iff:
  "hasAutonomous sessions \<longleftrightarrow> (\<exists>s \<in> set sessions. durationHours s > 8)"
  by (simp add: hasAutonomous_def MAX_INTERACTIVE_SESSION_HOURS_def list_ex_iff)

text \<open>
  Claim C3 at a list of one session of 10 hours. The selection falls back to all
  sessions, so no session is excluded from it, and \<open>maxSession\<close> is the session of 10
  hours itself; \<open>hasAutonomousSessions\<close> is true all the same.
\<close>

theorem hasAutonomous_without_exclusion:
  "maxSessionBase [\<lparr>project = ''foo'', start = 1704099600000, endTime = 1704135600000,
                     durationHours = 10, sizeBytes = 110\<rparr>] =
     [\<lparr>project = ''foo'', start = 1704099600000, endTime = 1704135600000,
        durationHours = 10, sizeBytes = 110\<rparr>] \<and>
   map_option maxSession
     (analyze utc [\<lparr>project = ''foo'', start = 1704099600000, endTime = 1704135600000,
                    durationHours = 10, sizeBytes = 110\<rparr>]) =
     Some \<lparr>project = ''foo'', start = 1704099600000, endTime = 1704135600000,
            durationHours = 10, sizeBytes = 110\<rparr> \<and>
   map_option hasAutonomousSessions
     (analyze utc [\<lparr>project = ''foo'', start = 1704099600000, endTime = 1704135600000,
                    durationHours = 10, sizeBytes = 110\<rparr>]) = Some True"
  by (simp add: analyze_def Let_def maxSessionOf_def maxSessionBase_def interactiveSessions_def
      hasAutonomous_def MAX_INTERACTIVE_SESSION_HOURS_def)

lemma longSessions_iff:
  "longSessions sessions \<noteq> [] \<longleftrightarrow> (\<exists>s \<in> set sessions. 3 \<le> durationHours s)"
  by (auto simp add: longSessions_def HEALTH_WARN_SESSION_HOURS_def filter_empty_conv)

text \<open>
  Claim C4. For every non-empty list of sessions \<open>analyze\<close> returns a result. Its
  average duration is the sum of the hours divided by the number of sessions, its
  average per day is the same sum divided by the number of active days, and its
  warnings are these entries, in this order, each one there exactly when its condition
  holds:
  \<^item> \<open>warn\<close>, with the number of sessions of 3 hours or more, when there is such a session;
  \<^item> \<open>warn\<close>, with the longest streak, when the longest streak is 7 days or more;
  \<^item> \<open>info\<close>, with the average duration, when that average is above 2 hours;
  \<^item> \<open>alert\<close>, with the average per active day, when that average is above 6 hours.
\<close>

theorem warnings_in_order:
  assumes "sessions \<noteq> []"
  shows "\<exists>stats. analyze P sessions = Some stats \<and>
           avgDuration stats = fdiv (sumHours sessions) (of_nat (length sessions)) \<and>
           avgDailyHours stats =
             fdiv (sumHours sessions) (of_nat (length (activeDays stats))) \<and>
           warnings stats =
             (if \<exists>s \<in> set sessions. 3 \<le> durationHours s then
                [\<lparr>level = Warn,
                  msg = show_int (int (length (filter (\<lambda>s. 3 \<le> durationHours s) sessions))) @
                    '' session(s) over 3h without a break. Your spine has opinions.''\<rparr>]
              else []) @
             (if 7 \<le> maxStreak stats then
                [\<lparr>level = Warn,
                  msg = show_int (int (maxStreak stats)) @
                    '' consecutive days of AI usage. Rest days exist for a reason.''\<rparr>]
              else []) @
             (if 2 < avgDuration stats then
                [\<lparr>level = Info,
                  msg = ''Average session is '' @ toFixed1 (avgDuration stats) @
                    ''h. The 90-minute focus/break cycle is backed by research.''\<rparr>]
              else []) @
             (if 6 < avgDailyHours stats then
                [\<lparr>level = Alert,
                  msg = toFixed1 (avgDailyHours stats) @ ''h/day average. That'' @ [CHR 0x27] @
                    ''s a full workday of sitting. Stretch. Now.''\<rparr>]
              else [])"
proof -
  from assms obtain stats where st: "analyze P sessions = Some stats"
    using analyze_None_iff [of P sessions] by (cases "analyze P sessions") auto
  have avg: "avgDuration stats = fdiv (sumHours sessions) (of_nat (length sessions))"
    by (rule analyze_fields(3) [OF st])
  have avd: "avgDailyHours stats = fdiv (sumHours sessions) (of_nat (length (activeDays stats)))"
    by (simp only: analyze_fields(8) [OF st] analyze_fields(6) [OF st])
  have long: "longSessions sessions = filter (\<lambda>s. 3 \<le> durationHours s) sessions"
    by (simp add: longSessions_def HEALTH_WARN_SESSION_HOURS_def)
  have some: "0 < length (longSessions sessions) \<longleftrightarrow> (\<exists>s \<in> set sessions. 3 \<le> durationHours s)"
    using longSessions_iff [of sessions] by simp
  have w: "warnings stats =
      warningsOf sessions (maxStreak stats) (avgDuration stats) (avgDailyHours stats)"
    by (simp only: analyze_fields(9) [OF st] analyze_fields(7) [OF st] analyze_fields(3) [OF st]
        analyze_fields(8) [OF st])
  have "warnings stats =
             (if \<exists>s \<in> set sessions. 3 \<le> durationHours s then
                [\<lparr>level = Warn,
                  msg = show_int (int (length (filter (\<lambda>s. 3 \<le> durationHours s) sessions))) @
                    '' session(s) over 3h without a break. Your spine has opinions.''\<rparr>]
              else []) @
             (if 7 \<le> maxStreak stats then
                [\<lparr>level = Warn,
                  msg = show_int (int (maxStreak stats)) @
                    '' consecutive days of AI usage. Rest days exist for a reason.''\<rparr>]
              else []) @
             (if 2 < avgDuration stats then
                [\<lparr>level = Info,
                  msg = ''Average session is '' @ toFixed1 (avgDuration stats) @
                    ''h. The 90-minute focus/break cycle is backed by research.''\<rparr>]
              else []) @
             (if 6 < avgDailyHours stats then
                [\<lparr>level = Alert,
                  msg = toFixed1 (avgDailyHours stats) @ ''h/day average. That'' @ [CHR 0x27] @
                    ''s a full workday of sitting. Stretch. Now.''\<rparr>]
              else [])"
    unfolding w warningsOf_def some HEALTH_WARN_CONSECUTIVE_DAYS_def
    by (simp add: long)
  with st avg avd show ?thesis by (intro exI [of _ stats] conjI)
qed

text \<open>
  A session of exactly 3 hours triggers the long-session warning, one of 2.999 hours
  does not; a week of seven-hour days triggers all four warnings, in the order
  \<open>warn\<close>, \<open>warn\<close>, \<open>info\<close>, \<open>alert\<close>.
\<close>

lemma example_days:
  "activeDaysOf utc [session_at 1704099600000 3, session_at 1704117600000 (1 / 2)] = [''2024-01-01'']"
  "activeDaysOf utc [session_at 1704099600000 (2999 / 1000), session_at 1704117600000 (1 / 2)] =
     [''2024-01-01'']"
  by code_simp+

lemma full_week_days:
  "activeDaysOf utc full_week =
     [''2024-01-01'', ''2024-01-02'', ''2024-01-03'', ''2024-01-04'', ''2024-01-05'',
      ''2024-01-06'', ''2024-01-07'']"
  by code_simp

lemma full_week_streak:
  "maxStreakOf utc
     [''2024-01-01'', ''2024-01-02'', ''2024-01-03'', ''2024-01-04'', ''2024-01-05'',
      ''2024-01-06'', ''2024-01-07''] = 7"
  by code_simp

lemma three_hours:
  "(\<exists>s \<in> set [session_at 1704099600000 3, session_at 1704117600000 (1 / 2)].
      3 \<le> durationHours s) = True"
  "show_int (int (length (filter (\<lambda>s. 3 \<le> durationHours s)
      [session_at 1704099600000 3, session_at 1704117600000 (1 / 2)]))) = ''1''"
  "maxStreakOf utc [''2024-01-01''] = 1"
  "fdiv (sumHours [session_at 1704099600000 3, session_at 1704117600000 (1 / 2)])
     (of_nat (length [session_at 1704099600000 3, session_at 1704117600000 (1 / 2)])) = 7 / 4"
  "fdiv (sumHours [session_at 1704099600000 3, session_at 1704117600000 (1 / 2)])
     (of_nat (length [''2024-01-01''])) = 7 / 2"
  by code_simp+

lemma below_three_hours:
  "(\<exists>s \<in> set [session_at 1704099600000 (2999 / 1000), session_at 1704117600000 (1 / 2)].
      3 \<le> durationHours s) = False"
  "(2 < fdiv (sumHours [session_at 1704099600000 (2999 / 1000), session_at 1704117600000 (1 / 2)])
     (of_nat (length [session_at 1704099600000 (2999 / 1000), session_at 1704117600000 (1 / 2)]))) =
     False"
  "(6 < fdiv (sumHours [session_at 1704099600000 (2999 / 1000), session_at 1704117600000 (1 / 2)])
     (of_nat (length [''2024-01-01'']))) = False"
  by code_simp+

lemma full_week_hours:
  "(\<exists>s \<in> set full_week. 3 \<le> durationHours s) = True"
  "show_int (int (length (filter (\<lambda>s. 3 \<le> durationHours s) full_week))) = ''7''"
  "fdiv (sumHours full_week) (of_nat (length full_week)) = 7"
  "fdiv (sumHours full_week)
     (of_nat (length [''2024-01-01'', ''2024-01-02'', ''2024-01-03'', ''2024-01-04'',
        ''2024-01-05'', ''2024-01-06'', ''2024-01-07''])) = 7"
  "show_int (int 7) = ''7''"
  "toFixed1 7 = ''7.0''"
  by code_simp+

theorem warnings_in_order_witness:
  "(\<exists>stats. analyze utc [session_at 1704099600000 3, session_at 1704117600000 (1 / 2)] = Some stats \<and>
      warnings stats =
        [\<lparr>level = Warn,
          msg = ''1 session(s) over 3h without a break. Your spine has opinions.''\<rparr>]) \<and>
   (\<exists>stats. analyze utc [session_at 1704099600000 (2999 / 1000), session_at 1704117600000 (1 / 2)] =
        Some stats \<and>
      warnings stats = []) \<and>
   (\<exists>stats. analyze utc full_week = Some stats \<and>
      warnings stats =
        [\<lparr>level = Warn,
          msg = ''7 session(s) over 3h without a break. Your spine has opinions.''\<rparr>,
         \<lparr>level = Warn,
          msg = ''7 consecutive days of AI usage. Rest days exist for a reason.''\<rparr>,
         \<lparr>level = Info,
          msg = ''Average session is 7.0h. The 90-minute focus/break cycle is backed by research.''\<rparr>,
         \<lparr>level = Alert,
          msg = ''7.0h/day average. That'' @ [CHR 0x27] @
            ''s a full workday of sitting. Stretch. Now.''\<rparr>])"
proof (intro conjI)
  let ?a = "[session_at 1704099600000 3, session_at 1704117600000 (1 / 2)]"
  have ne: "?a \<noteq> []" by simp
  from warnings_in_order [OF ne, of utc] obtain stats where
    st: "analyze utc ?a = Some stats" and
    avg: "avgDuration stats = fdiv (sumHours ?a) (of_nat (length ?a))" and
    avd: "avgDailyHours stats = fdiv (sumHours ?a) (of_nat (length (activeDays stats)))" and
    w: "warnings stats =
             (if \<exists>s \<in> set ?a. 3 \<le> durationHours s then
                [\<lparr>level = Warn,
                  msg = show_int (int (length (filter (\<lambda>s. 3 \<le> durationHours s) ?a))) @
                    '' session(s) over 3h without a break. Your spine has opinions.''\<rparr>]
              else []) @
             (if 7 \<le> maxStreak stats then
                [\<lparr>level = Warn,
                  msg = show_int (int (maxStreak stats)) @
                    '' consecutive days of AI usage. Rest days exist for a reason.''\<rparr>]
              else []) @
             (if 2 < avgDuration stats then
                [\<lparr>level = Info,
                  msg = ''Average session is '' @ toFixed1 (avgDuration stats) @
                    ''h. The 90-minute focus/break cycle is backed by research.''\<rparr>]
              else []) @
             (if 6 < avgDailyHours stats then
                [\<lparr>level = Alert,
                  msg = toFixed1 (avgDailyHours stats) @ ''h/day average. That'' @ [CHR 0x27] @
                    ''s a full workday of sitting. Stretch. Now.''\<rparr>]
              else [])"
    by blast
  have days: "activeDays stats = [''2024-01-01'']"
    by (simp only: analyze_fields(6) [OF st] example_days)
  have ms: "maxStreak stats = 1"
    by (simp only: analyze_fields(7) [OF st] example_days three_hours)
  have av: "avgDuration stats = 7 / 4" by (simp only: avg three_hours)
  have ad: "avgDailyHours stats = 7 / 2" by (simp only: avd days three_hours)
  have "warnings stats =
        [\<lparr>level = Warn,
          msg = ''1 session(s) over 3h without a break. Your spine has opinions.''\<rparr>]"
    unfolding w ms av ad three_hours by simp
  with st show "\<exists>stats. analyze utc ?a = Some stats \<and>
      warnings stats =
        [\<lparr>level = Warn,
          msg = ''1 session(s) over 3h without a break. Your spine has opinions.''\<rparr>]"
    by (intro exI [of _ stats] conjI)
next
  let ?b = "[session_at 1704099600000 (2999 / 1000), session_at 1704117600000 (1 / 2)]"
  have ne: "?b \<noteq> []" by simp
  from warnings_in_order [OF ne, of utc] obtain stats where
    st: "analyze utc ?b = Some stats" and
    avg: "avgDuration stats = fdiv (sumHours ?b) (of_nat (length ?b))" and
    avd: "avgDailyHours stats = fdiv (sumHours ?b) (of_nat (length (activeDays stats)))" and
    w: "warnings stats =
             (if \<exists>s \<in> set ?b. 3 \<le> durationHours s then
                [\<lparr>level = Warn,
                  msg = show_int (int (length (filter (\<lambda>s. 3 \<le> durationHours s) ?b))) @
                    '' session(s) over 3h without a break. Your spine has opinions.''\<rparr>]
              else []) @
             (if 7 \<le> maxStreak stats then
                [\<lparr>level = Warn,
                  msg = show_int (int (maxStreak stats)) @
                    '' consecutive days of AI usage. Rest days exist for a reason.''\<rparr>]
              else []) @
             (if 2 < avgDuration stats then
                [\<lparr>level = Info,
                  msg = ''Average session is '' @ toFixed1 (avgDuration stats) @
                    ''h. The 90-minute focus/break cycle is backed by research.''\<rparr>]
              else []) @
             (if 6 < avgDailyHours stats then
                [\<lparr>level = Alert,
                  msg = toFixed1 (avgDailyHours stats) @ ''h/day average. That'' @ [CHR 0x27] @
                    ''s a full workday of sitting. Stretch. Now.''\<rparr>]
              else [])"
    by blast
  have days: "activeDays stats = [''2024-01-01'']"
    by (simp only: analyze_fields(6) [OF st] example_days)
  have ms: "maxStreak stats = 1"
    by (simp only: analyze_fields(7) [OF st] example_days three_hours)
  have av: "(2 < avgDuration stats) = False" by (simp only: avg below_three_hours)
  have ad: "(6 < avgDailyHours stats) = False" by (simp only: avd days below_three_hours)
  have "warnings stats = []"
    unfolding w ms av ad below_three_hours by simp
  with st show "\<exists>stats. analyze utc ?b = Some stats \<and> warnings stats = []"
    by (intro exI [of _ stats] conjI)
next
  have ne: "full_week \<noteq> []" by (simp add: full_week_def)
  from warnings_in_order [OF ne, of utc] obtain stats where
    st: "analyze utc full_week = Some stats" and
    avg: "avgDuration stats = fdiv (sumHours full_week) (of_nat (length full_week))" and
    avd: "avgDailyHours stats = fdiv (sumHours full_week) (of_nat (length (activeDays stats)))" and
    w: "warnings stats =
             (if \<exists>s \<in> set full_week. 3 \<le> durationHours s then
                [\<lparr>level = Warn,
                  msg = show_int (int (length (filter (\<lambda>s. 3 \<le> durationHours s) full_week))) @
                    '' session(s) over 3h without a break. Your spine has opinions.''\<rparr>]
              else []) @
             (if 7 \<le> maxStreak stats then
                [\<lparr>level = Warn,
                  msg = show_int (int (maxStreak stats)) @
                    '' consecutive days of AI usage. Rest days exist for a reason.''\<rparr>]
              else []) @
             (if 2 < avgDuration stats then
                [\<lparr>level = Info,
                  msg = ''Average session is '' @ toFixed1 (avgDuration stats) @
                    ''h. The 90-minute focus/break cycle is backed by research.''\<rparr>]
              else []) @
             (if 6 < avgDailyHours stats then
                [\<lparr>level = Alert,
                  msg = toFixed1 (avgDailyHours stats) @ ''h/day average. That'' @ [CHR 0x27] @
                    ''s a full workday of sitting. Stretch. Now.''\<rparr>]
              else [])"
    by blast
  have days: "activeDays stats =
     [''2024-01-01'', ''2024-01-02'', ''2024-01-03'', ''2024-01-04'', ''2024-01-05'',
      ''2024-01-06'', ''2024-01-07'']"
    by (simp only: analyze_fields(6) [OF st] full_week_days)
  have ms: "maxStreak stats = 7"
    by (simp only: analyze_fields(7) [OF st] full_week_days full_week_streak)
  have av: "avgDuration stats = 7" by (simp only: avg full_week_hours)
  have ad: "avgDailyHours stats = 7" by (simp only: avd days full_week_hours)
  have "warnings stats =
        [\<lparr>level = Warn,
          msg = ''7 session(s) over 3h without a break. Your spine has opinions.''\<rparr>,
         \<lparr>level = Warn,
          msg = ''7 consecutive days of AI usage. Rest days exist for a reason.''\<rparr>,
         \<lparr>level = Info,
          msg = ''Average session is 7.0h. The 90-minute focus/break cycle is backed by research.''\<rparr>,
         \<lparr>level = Alert,
          msg = ''7.0h/day average. That'' @ [CHR 0x27] @
            ''s a full workday of sitting. Stretch. Now.''\<rparr>]"
    unfolding w ms av ad full_week_hours by simp
  with st show "\<exists>stats. analyze utc full_week = Some stats \<and>
      warnings stats =
        [\<lparr>level = Warn,
          msg = ''7 session(s) over 3h without a break. Your spine has opinions.''\<rparr>,
         \<lparr>level = Warn,
          msg = ''7 consecutive days of AI usage. Rest days exist for a reason.''\<rparr>,
         \<lparr>level = Info,
          msg = ''Average session is 7.0h. The 90-minute focus/break cycle is backed by research.''\<rparr>,
         \<lparr>level = Alert,
          msg = ''7.0h/day average. That'' @ [CHR 0x27] @
            ''s a full workday of sitting. Stretch. Now.''\<rparr>]"
    by (intro exI [of _ stats] conjI)
qed

subsection \<open>The entry point\<close>

text \<open>
  Claim C9. \<open>analyze\<close> returns the absent result exactly when its list of sessions is
  empty. When \<open>scanSessions\<close> finds no session, and likewise whenever the analysis of
  the sessions found yields no result, \<open>main\<close> ends with exit code 1 after printing an
  explanation: the JSON document \<^verbatim>\<open>{"error": "No sessions found"}\<close> in JSON mode, two
  lines of text otherwise.
\<close>

theorem analyze_absent_exit_1:
  "(analyze P sessions = None \<longleftrightarrow> sessions = []) \<and>
   (scanSessions P claudeDir = [] \<or> analyze P (scanSessions P claudeDir) = None \<longrightarrow>
      exitCode (main P jsonMode claudeDir) = 1 \<and>
      stdout (main P jsonMode claudeDir) =
        (if jsonMode then [Log (errorJson ''No sessions found'')]
         else [Write ''  Scanning sessions...'',
               Write ([CHR 0x0D] @ replicate 24 CHR '' '' @ [CHR 0x0D]),
               Log ''  No Claude Code sessions found in ~/.claude/projects/'',
               Log ''  Run Claude Code at least once to generate session data.'']))"
proof (intro conjI impI)
  show "analyze P sessions = None \<longleftrightarrow> sessions = []" by (rule analyze_None_iff)
next
  assume "scanSessions P claudeDir = [] \<or> analyze P (scanSessions P claudeDir) = None"
  then have e: "scanSessions P claudeDir = []" by (auto simp add: analyze_None_iff)
  show "exitCode (main P jsonMode claudeDir) = 1" by (simp add: main_def e Let_def)
  show "stdout (main P jsonMode claudeDir) =
        (if jsonMode then [Log (errorJson ''No sessions found'')]
         else [Write ''  Scanning sessions...'',
               Write ([CHR 0x0D] @ replicate 24 CHR '' '' @ [CHR 0x0D]),
               Log ''  No Claude Code sessions found in ~/.claude/projects/'',
               Log ''  Run Claude Code at least once to generate session data.''])"
    by (simp add: main_def e Let_def)
qed

text \<open>Without a \<open>.claude\<close> directory there is no session, and the run ends with code 1.\<close>

theorem analyze_absent_exit_1_witness:
  "analyze utc [] = None \<and> analyze utc full_week \<noteq> None \<and>
   scanSessions utc None = [] \<and>
   exitCode (main utc True None) = 1 \<and>
   stdout (main utc True None) = [Log (errorJson ''No sessions found'')] \<and>
   exitCode (main utc False None) = 1 \<and>
   stdout (main utc False None) =
     [Write ''  Scanning sessions...'',
      Write ([CHR 0x0D] @ replicate 24 CHR '' '' @ [CHR 0x0D]),
      Log ''  No Claude Code sessions found in ~/.claude/projects/'',
      Log ''  Run Claude Code at least once to generate session data.'']"
proof -
  have e: "scanSessions utc None = []" by (simp add: scanSessions_def)
  have ne: "full_week \<noteq> []" by (simp add: full_week_def)
  from analyze_absent_exit_1 [of utc "[]" None True] e
  have r1: "analyze utc [] = None \<and> exitCode (main utc True None) = 1 \<and>
            stdout (main utc True None) = [Log (errorJson ''No sessions found'')]"
    by simp
  from analyze_absent_exit_1 [of utc full_week None False] e ne
  have r2: "analyze utc full_week \<noteq> None \<and> exitCode (main utc False None) = 1 \<and>
            stdout (main utc False None) =
              [Write ''  Scanning sessions...'',
               Write ([CHR 0x0D] @ replicate 24 CHR '' '' @ [CHR 0x0D]),
               Log ''  No Claude Code sessions found in ~/.claude/projects/'',
               Log ''  Run Claude Code at least once to generate session data.'']"
    by simp
  from r1 r2 e show ?thesis by simp
qed

subsection \<open>The longest streak\<close>

text \<open>
  The quotient is the double 1 for a difference of exactly one day only: the quotients
  of one millisecond less and of one millisecond more round to other doubles.
\<close>

lemma one_day:
  "fdiv 86400000 86400000 = 1"
  "fdiv 86399999 86400000 < 1"
  "1 < fdiv 86400001 86400000"
  by code_simp+

lemma one_day_iff: "fdiv (of_int n) 86400000 = 1 \<longleftrightarrow> n = 86400000"
proof
  assume q: "fdiv (of_int n) 86400000 = 1"
  show "n = 86400000"
  proof (rule ccontr)
    assume "n \<noteq> 86400000"
    then consider "n \<le> 86399999" | "86400001 \<le> n" by linarith
    then show False
    proof cases
      case 1
      then have "(of_int n :: rat) \<le> of_int 86399999" by (simp only: of_int_le_iff)
      then have "(of_int n :: rat) \<le> 86399999" by simp
      then have "fdiv (of_int n) 86400000 \<le> fdiv 86399999 86400000"
        by (rule fdiv_mono) (simp add: double_constants)
      with one_day(2) q show False by simp
    next
      case 2
      then have "(of_int 86400001 :: rat) \<le> of_int n" by (simp only: of_int_le_iff)
      then have "(86400001 :: rat) \<le> of_int n" by simp
      then have "fdiv 86400001 86400000 \<le> fdiv (of_int n) 86400000"
        by (rule fdiv_mono) (simp add: double_constants)
      with one_day(3) q show False by simp
    qed
  qed
next
  assume "n = 86400000"
  then show "fdiv (of_int n) 86400000 = 1" by (simp add: one_day)
qed

lemma diffDays_one: "diffDays P b a = Some 1 \<longleftrightarrow> consecutiveDays P a b"
proof (cases "Date_parse P a")
  case None
  then show ?thesis by (simp add: diffDays_def consecutiveDays_def split: option.splits)
next
  case (Some x)
  show ?thesis
  proof (cases "Date_parse P b")
    case None
    then show ?thesis by (simp add: diffDays_def consecutiveDays_def split: option.splits)
  next
    case (Some y)
    have "fdiv (of_int (y - x)) 86400000 = 1 \<longleftrightarrow> y - x = 86400000"
      by (rule one_day_iff)
    then show ?thesis using Some \<open>Date_parse P a = Some x\<close>
      by (simp add: diffDays_def consecutiveDays_def)
  qed
qed

lemma streakLoop_ge: "mx \<le> streakLoop P prev days mx cur"
proof (induction days arbitrary: prev mx cur)
  case Nil
  then show ?case by simp
next
  case (Cons c days)
  have "mx \<le> max mx (cur + 1)" by simp
  also have "\<dots> \<le> streakLoop P c days (max mx (cur + 1)) (cur + 1)" by (rule Cons.IH)
  finally have a: "mx \<le> streakLoop P c days (max mx (cur + 1)) (cur + 1)" .
  have b: "mx \<le> streakLoop P c days mx 1" by (rule Cons.IH)
  from a b show ?case by simp
qed

text \<open>
  No run is longer than the result of the loop: not a run that starts at \<open>prev\<close>, taken
  together with the \<open>cur - 1\<close> days that precede \<open>prev\<close> in its streak, and not a run
  among the days to come.
\<close>

lemma streakLoop_upper:
  assumes "1 \<le> cur" and "cur \<le> mx" and "successively (consecutiveDays P) r"
  shows "(prefix r (prev # days) \<longrightarrow> length r + cur - 1 \<le> streakLoop P prev days mx cur) \<and>
         (sublist r days \<longrightarrow> length r \<le> streakLoop P prev days mx cur)"
  using assms
proof (induction days arbitrary: prev mx cur r)
  case Nil
  have "prefix r [prev] \<Longrightarrow> length r \<le> 1"
    by (auto dest: prefix_length_le)
  with Nil show ?case by auto
next
  case (Cons c days)
  let ?R = "streakLoop P prev (c # days) mx cur"
  show ?case
  proof (cases "consecutiveDays P prev c")
    case True
    then have R: "?R = streakLoop P c days (max mx (cur + 1)) (cur + 1)"
      by (simp add: diffDays_one)
    have inv: "1 \<le> cur + 1" "cur + 1 \<le> max mx (cur + 1)" by simp_all
    have ge: "mx \<le> ?R" by (rule streakLoop_ge)
    show ?thesis
    proof (intro conjI impI)
      assume p: "prefix r (prev # c # days)"
      show "length r + cur - 1 \<le> ?R"
      proof (cases r)
        case Nil
        with Cons.prems ge show ?thesis by simp
      next
        case (Cons x r')
        with p have x: "x = prev" and p': "prefix r' (c # days)" by simp_all
        have s': "successively (consecutiveDays P) r'"
          using Cons.prems(3) Cons by (auto simp add: successively_Cons)
        from Cons.IH [OF inv s', of c] p'
        have "length r' + (cur + 1) - 1 \<le> streakLoop P c days (max mx (cur + 1)) (cur + 1)"
          by blast
        with R Cons show ?thesis by simp
      qed
    next
      assume "sublist r (c # days)"
      then have "prefix r (c # days) \<or> sublist r days" by (simp add: sublist_Cons_right)
      with Cons.IH [OF inv Cons.prems(3), of c] R show "length r \<le> ?R" by auto
    qed
  next
    case False
    then have R: "?R = streakLoop P c days mx 1" by (simp add: diffDays_one)
    have inv: "(1::nat) \<le> 1" "1 \<le> mx" using Cons.prems by simp_all
    have ge: "mx \<le> ?R" by (rule streakLoop_ge)
    show ?thesis
    proof (intro conjI impI)
      assume p: "prefix r (prev # c # days)"
      have "length r \<le> 1"
      proof (cases r)
        case Nil
        then show ?thesis by simp
      next
        case (Cons x r')
        with p have x: "x = prev" and p': "prefix r' (c # days)" by simp_all
        have "r' = []"
        proof (cases r')
          case Nil
          then show ?thesis .
        next
          case (Cons y r'')
          with p' have "y = c" by simp
          with Cons \<open>r = x # r'\<close> x Cons.prems(3) False show ?thesis by simp
        qed
        with Cons show ?thesis by simp
      qed
      with Cons.prems ge show "length r + cur - 1 \<le> ?R" by simp
    next
      assume "sublist r (c # days)"
      then have "prefix r (c # days) \<or> sublist r days" by (simp add: sublist_Cons_right)
      with Cons.IH [OF inv Cons.prems(3), of c] R show "length r \<le> ?R" by auto
    qed
  qed
qed

text \<open>
  The result of the loop is reached: it is \<open>mx\<close>, or the length of a run that starts at
  \<open>prev\<close> together with the \<open>cur - 1\<close> days before, or the length of a run to come.
\<close>

lemma streakLoop_reached:
  assumes "1 \<le> cur"
  shows "streakLoop P prev days mx cur = mx \<or>
         (\<exists>r. r \<noteq> [] \<and> prefix r (prev # days) \<and> successively (consecutiveDays P) r \<and>
              streakLoop P prev days mx cur = length r + cur - 1) \<or>
         (\<exists>r. r \<noteq> [] \<and> sublist r days \<and> successively (consecutiveDays P) r \<and>
              streakLoop P prev days mx cur = length r)"
  using assms
proof (induction days arbitrary: prev mx cur)
  case Nil
  then show ?case by simp
next
  case (Cons c days)
  let ?R = "streakLoop P prev (c # days) mx cur"
  show ?case
  proof (cases "consecutiveDays P prev c")
    case True
    then have R: "?R = streakLoop P c days (max mx (cur + 1)) (cur + 1)"
      by (simp add: diffDays_one)
    have inv: "1 \<le> cur + 1" by simp
    from Cons.IH [OF inv, of c "max mx (cur + 1)"]
    consider
      (a) "?R = max mx (cur + 1)"
    | (b) r where "r \<noteq> []" "prefix r (c # days)" "successively (consecutiveDays P) r"
        "?R = length r + (cur + 1) - 1"
    | (c) r where "r \<noteq> []" "sublist r days" "successively (consecutiveDays P) r" "?R = length r"
      unfolding R by blast
    then show ?thesis
    proof cases
      case a
      show ?thesis
      proof (cases "mx \<le> cur + 1")
        case False
        with a show ?thesis by (simp add: max_def)
      next
        case le: True
        have "[prev, c] \<noteq> [] \<and> prefix [prev, c] (prev # c # days) \<and>
              successively (consecutiveDays P) [prev, c] \<and> ?R = length [prev, c] + cur - 1"
          using a le True by (simp add: max_def)
        then show ?thesis by blast
      qed
    next
      case b
      from b(1,2) obtain r' where r: "r = c # r'" by (cases r) auto
      have "prev # r \<noteq> [] \<and> prefix (prev # r) (prev # c # days) \<and>
            successively (consecutiveDays P) (prev # r) \<and> ?R = length (prev # r) + cur - 1"
        using b r True by simp
      then show ?thesis by blast
    next
      case c
      have "sublist r (c # days)" using c(2) by (simp add: sublist_Cons_right)
      with c show ?thesis by blast
    qed
  next
    case False
    then have R: "?R = streakLoop P c days mx 1" by (simp add: diffDays_one)
    from Cons.IH [of 1 c mx]
    consider
      (a) "?R = mx"
    | (b) r where "r \<noteq> []" "prefix r (c # days)" "successively (consecutiveDays P) r"
        "?R = length r + 1 - 1"
    | (c) r where "r \<noteq> []" "sublist r days" "successively (consecutiveDays P) r" "?R = length r"
      unfolding R by auto
    then show ?thesis
    proof cases
      case a
      then show ?thesis by simp
    next
      case b
      have "sublist r (c # days)" using b(2) by (simp add: sublist_Cons_right)
      with b show ?thesis by auto
    next
      case c
      have "sublist r (c # days)" using c(2) by (simp add: sublist_Cons_right)
      with c show ?thesis by blast
    qed
  qed
qed

text \<open>The loop computes the length of the longest run of a non-empty list of date keys.\<close>

lemma maxStreakOf_longest:
  assumes "days \<noteq> []"
  shows "\<exists>r. streakRun P days r \<and> length r = maxStreakOf P days"
    and "\<forall>r. streakRun P days r \<longrightarrow> length r \<le> maxStreakOf P days"
proof -
  from assms obtain d ds where days: "days = d # ds" by (cases days) auto
  have m: "maxStreakOf P days = streakLoop P d ds 1 1" by (simp add: maxStreakOf_def days)
  have one: "streakRun P days [d]" by (simp add: streakRun_def days sublist_Cons_right)
  from streakLoop_reached [of 1 P d ds 1]
  consider
    (a) "streakLoop P d ds 1 1 = 1"
  | (b) r where "r \<noteq> []" "prefix r (d # ds)" "successively (consecutiveDays P) r"
      "streakLoop P d ds 1 1 = length r + 1 - 1"
  | (c) r where "r \<noteq> []" "sublist r ds" "successively (consecutiveDays P) r"
      "streakLoop P d ds 1 1 = length r"
    by auto
  then show "\<exists>r. streakRun P days r \<and> length r = maxStreakOf P days"
  proof cases
    case a
    with one m have "streakRun P days [d] \<and> length [d] = maxStreakOf P days" by simp
    then show ?thesis by blast
  next
    case b
    then have "streakRun P days r \<and> length r = maxStreakOf P days"
      by (simp add: streakRun_def days maxStreakOf_def)
    then show ?thesis by blast
  next
    case c
    then have "streakRun P days r \<and> length r = maxStreakOf P days"
      by (simp add: streakRun_def days maxStreakOf_def sublist_Cons_right)
    then show ?thesis by blast
  qed
  show "\<forall>r. streakRun P days r \<longrightarrow> length r \<le> maxStreakOf P days"
  proof (intro allI impI)
    fix r
    assume "streakRun P days r"
    then have s: "successively (consecutiveDays P) r" and sub: "sublist r (d # ds)"
      by (simp_all add: streakRun_def days)
    from sub have "prefix r (d # ds) \<or> sublist r ds" by (simp add: sublist_Cons_right)
    with streakLoop_upper [of 1 1 P r d ds] s m show "length r \<le> maxStreakOf P days" by auto
  qed
qed

text \<open>The active days: the date keys of the sessions, each once, in ascending order.\<close>

lemma byDateStep_keys:
  "fst ` set (byDateStep P bd s) = insert (toLocaleDateString P (start s)) (fst ` set bd)"
  "distinct (map fst bd) \<Longrightarrow> distinct (map fst (byDateStep P bd s))"
  by (simp_all add: byDateStep_def Let_def dom_update distinct_update)

lemma foldl_byDateStep_keys:
  "distinct (map fst acc) \<Longrightarrow>
   distinct (map fst (foldl (byDateStep P) acc sessions)) \<and>
   fst ` set (foldl (byDateStep P) acc sessions) =
     fst ` set acc \<union> (\<lambda>s. toLocaleDateString P (start s)) ` set sessions"
proof (induction sessions arbitrary: acc)
  case Nil
  then show ?case by simp
next
  case (Cons s sessions)
  from Cons.IH [OF byDateStep_keys(2) [OF Cons.prems, of P s]] byDateStep_keys(1) [of P acc s]
  show ?case by auto
qed

lemma activeDaysOf_keys:
  "sorted (activeDaysOf P sessions)"
  "distinct (activeDaysOf P sessions)"
  "set (activeDaysOf P sessions) = (\<lambda>s. toLocaleDateString P (start s)) ` set sessions"
  using foldl_byDateStep_keys [of "[]" P sessions]
  by (simp_all add: activeDaysOf_def byDateOf_def)

text \<open>
  Claim C5. For every non-empty list of sessions \<open>analyze\<close> returns a result whose
  active days are the date keys of the sessions, sorted and without repetition, and
  whose \<open>maxStreak\<close> is the length of the longest run of consecutive days among them:
  some run has this length and no run is longer. It is at least 1.
\<close>

theorem maxStreak_longest_run:
  assumes "sessions \<noteq> []"
  shows "\<exists>stats. analyze P sessions = Some stats \<and>
           sorted (activeDays stats) \<and> distinct (activeDays stats) \<and>
           set (activeDays stats) = (\<lambda>s. toLocaleDateString P (start s)) ` set sessions \<and>
           1 \<le> maxStreak stats \<and>
           (\<exists>r. streakRun P (activeDays stats) r \<and> length r = maxStreak stats) \<and>
           (\<forall>r. streakRun P (activeDays stats) r \<longrightarrow> length r \<le> maxStreak stats)"
proof -
  from assms obtain stats where st: "analyze P sessions = Some stats"
    using analyze_None_iff [of P sessions] by (cases "analyze P sessions") auto
  have days: "activeDays stats = activeDaysOf P sessions" using st by (rule analyze_fields)
  have streak: "maxStreak stats = maxStreakOf P (activeDays stats)"
    using analyze_fields(7) [OF st] days by simp
  have "set (activeDays stats) \<noteq> {}" using assms by (simp add: days activeDaysOf_keys)
  then have ne: "activeDays stats \<noteq> []" by auto
  from maxStreakOf_longest(1) [OF ne, of P] obtain r where
    r: "streakRun P (activeDays stats) r" "length r = maxStreak stats"
    unfolding streak by blast
  then have "1 \<le> maxStreak stats" by (cases r) (auto simp add: streakRun_def)
  moreover have "\<exists>r. streakRun P (activeDays stats) r \<and> length r = maxStreak stats"
    using r by blast
  moreover have "\<forall>r. streakRun P (activeDays stats) r \<longrightarrow> length r \<le> maxStreak stats"
    unfolding streak by (rule maxStreakOf_longest(2) [OF ne])
  ultimately show ?thesis
    using st by (simp add: days activeDaysOf_keys)
qed

text \<open>
  The active dates D, D+1, D+2 and D+10 yield the streak 3, which is the length of
  the run D, D+1, D+2; a single active day yields the streak 1.
\<close>

lemma streak_days_active:
  "activeDaysOf utc streak_days = [''2024-01-01'', ''2024-01-02'', ''2024-01-03'', ''2024-01-11'']"
  "activeDaysOf utc [session_at 1704099600000 1] = [''2024-01-01'']"
  by code_simp+

lemma streak_days_streak:
  "maxStreakOf utc [''2024-01-01'', ''2024-01-02'', ''2024-01-03'', ''2024-01-11''] = 3"
  "maxStreakOf utc [''2024-01-01''] = 1"
  "streakRun utc [''2024-01-01'', ''2024-01-02'', ''2024-01-03'', ''2024-01-11'']
     [''2024-01-01'', ''2024-01-02'', ''2024-01-03'']"
  "\<not> consecutiveDays utc ''2024-01-03'' ''2024-01-11''"
  by code_simp+

theorem maxStreak_longest_run_witness:
  "(\<exists>stats. analyze utc streak_days = Some stats \<and>
      activeDays stats = [''2024-01-01'', ''2024-01-02'', ''2024-01-03'', ''2024-01-11''] \<and>
      streakRun utc (activeDays stats) [''2024-01-01'', ''2024-01-02'', ''2024-01-03''] \<and>
      3 \<le> maxStreak stats \<and> maxStreak stats = 3) \<and>
   (\<exists>stats. analyze utc [session_at 1704099600000 1] = Some stats \<and>
      activeDays stats = [''2024-01-01''] \<and> maxStreak stats = 1)"
proof (intro conjI)
  have ne: "streak_days \<noteq> []" by (simp add: streak_days_def)
  from maxStreak_longest_run [OF ne, of utc] obtain stats where
    st: "analyze utc streak_days = Some stats" and
    up: "\<forall>r. streakRun utc (activeDays stats) r \<longrightarrow> length r \<le> maxStreak stats"
    by blast
  have days: "activeDays stats = [''2024-01-01'', ''2024-01-02'', ''2024-01-03'', ''2024-01-11'']"
    using analyze_fields(6) [OF st] by (simp add: streak_days_active)
  have run: "streakRun utc (activeDays stats) [''2024-01-01'', ''2024-01-02'', ''2024-01-03'']"
    unfolding days by (rule streak_days_streak)
  from up run have "length [''2024-01-01'', ''2024-01-02'', ''2024-01-03''] \<le> maxStreak stats"
    by blast
  then have three: "3 \<le> maxStreak stats" by simp
  have eq: "maxStreak stats = 3"
    using analyze_fields(7) [OF st] by (simp add: streak_days_active streak_days_streak)
  from st days run three eq
  show "\<exists>stats. analyze utc streak_days = Some stats \<and>
      activeDays stats = [''2024-01-01'', ''2024-01-02'', ''2024-01-03'', ''2024-01-11''] \<and>
      streakRun utc (activeDays stats) [''2024-01-01'', ''2024-01-02'', ''2024-01-03''] \<and>
      3 \<le> maxStreak stats \<and> maxStreak stats = 3"
    by (intro exI [of _ stats] conjI)
next
  have ne: "[session_at 1704099600000 1] \<noteq> []" by simp
  from maxStreak_longest_run [OF ne, of utc] obtain stats where
    st: "analyze utc [session_at 1704099600000 1] = Some stats" and
    one: "1 \<le> maxStreak stats"
    by blast
  have days: "activeDays stats = [''2024-01-01'']"
    using analyze_fields(6) [OF st] by (simp add: streak_days_active)
  have eq: "maxStreak stats = 1"
    using analyze_fields(7) [OF st] by (simp add: streak_days_active streak_days_streak)
  from st days eq
  show "\<exists>stats. analyze utc [session_at 1704099600000 1] = Some stats \<and>
      activeDays stats = [''2024-01-01''] \<and> maxStreak stats = 1"
    by (intro exI [of _ stats] conjI)
qed

subsection \<open>The JSON document\<close>


text \<open>
  3 618 000 ms are 1.005 hours. The nearest double lies below 1.005 and its hundredfold
  is a double below 100.5, so the field is 1 and not 1.01.
\<close>

lemma round2_below_half: "round2 (fdiv 3618000 (1000 * 60 * 60)) = 1"
  by code_simp




lemma length_insert_by [simp]: "length (insert_by lt x ys) = Suc (length ys)"
  by (induction ys) auto

lemma length_sort_by [simp]: "length (sort_by lt xs) = length xs"
proof -
  have "length (foldl (\<lambda>acc x. insert_by lt x acc) acc ys) = length acc + length ys" for acc ys
    by (induction ys arbitrary: acc) simp_all
  then show ?thesis by (simp add: sort_by_def)
qed

lemma set_Object_entries [simp]: "set (Object_entries obj) = set obj"
  by (auto simp add: Object_entries_def)

lemma length_Object_entries [simp]: "length (Object_entries obj) = length obj"
  by (simp add: Object_entries_def sum_length_filter_compl)













end
